theory Spec2Isabelle
  imports Complex_Main "HOL-Library.AList" "HOL-Library.Multiset"
begin

section \<open>Python strings and dictionaries\<close>

text \<open>
  Strings are \<^typ>\<open>string\<close>; the model covers ASCII text, where Python's
  \<^verbatim>\<open>str.lower\<close>, \<^verbatim>\<open>str.strip\<close> and the regular-expression classes
  \<^verbatim>\<open>\s\<close>, \<^verbatim>\<open>\S\<close>, \<^verbatim>\<open>\b\<close> are decided by the character tables below.
  A \<^verbatim>\<open>dict\<close> is an association list in insertion order; \<^const>\<open>AList.update\<close>
  overwrites an existing key in place and appends a new one, as assignment
  \<^verbatim>\<open>d[k] = v\<close> does.
\<close>

definition upper_chars :: string where
  "upper_chars = ''ABCDEFGHIJKLMNOPQRSTUVWXYZ''"

definition lower_chars :: string where
  "lower_chars = ''abcdefghijklmnopqrstuvwxyz''"

definition digit_chars :: string where
  "digit_chars = ''0123456789''"

definition is_upper :: "char \<Rightarrow> bool" where
  "is_upper c = (c \<in> set upper_chars)"

definition is_lower :: "char \<Rightarrow> bool" where
  "is_lower c = (c \<in> set lower_chars)"

definition is_digit :: "char \<Rightarrow> bool" where
  "is_digit c = (c \<in> set digit_chars)"

definition is_space :: "char \<Rightarrow> bool" where
  \<comment> \<open>\<^verbatim>\<open>str.isspace\<close> on ASCII: space, TAB, LF, VT, FF, CR and the separators 0x1C..0x1F\<close>
  "is_space c = (c \<in> set [CHR '' '', CHR 0x09, CHR 0x0A, CHR 0x0B, CHR 0x0C, CHR 0x0D,
                           CHR 0x1C, CHR 0x1D, CHR 0x1E, CHR 0x1F])"

definition is_word :: "char \<Rightarrow> bool" where
  \<comment> \<open>the class \<^verbatim>\<open>\w\<close>\<close>
  "is_word c = (is_upper c \<or> is_lower c \<or> is_digit c \<or> c = CHR ''_'')"

definition lower_char :: "char \<Rightarrow> char" where
  "lower_char c = (case map_of (zip upper_chars lower_chars) c of Some d \<Rightarrow> d | None \<Rightarrow> c)"

definition upper_char :: "char \<Rightarrow> char" where
  "upper_char c = (case map_of (zip lower_chars upper_chars) c of Some d \<Rightarrow> d | None \<Rightarrow> c)"

definition str_lower :: "string \<Rightarrow> string" where
  "str_lower s = map lower_char s"

definition str_upper :: "string \<Rightarrow> string" where
  "str_upper s = map upper_char s"

fun starts_with :: "string \<Rightarrow> string \<Rightarrow> bool" where
  "starts_with [] s = True"
| "starts_with (p # ps) [] = False"
| "starts_with (p # ps) (c # cs) = (p = c \<and> starts_with ps cs)"

definition starts_with_ic :: "string \<Rightarrow> string \<Rightarrow> bool" where
  \<comment> \<open>a literal matched under \<^verbatim>\<open>re.IGNORECASE\<close>\<close>
  "starts_with_ic p s = starts_with (str_lower p) (str_lower s)"

fun contains :: "string \<Rightarrow> string \<Rightarrow> bool" where
  \<comment> \<open>\<^verbatim>\<open>p in s\<close>\<close>
  "contains p [] = (p = [])"
| "contains p (c # cs) = (starts_with p (c # cs) \<or> contains p cs)"

fun contains_ic :: "string \<Rightarrow> string \<Rightarrow> bool" where
  "contains_ic p [] = (p = [])"
| "contains_ic p (c # cs) = (starts_with_ic p (c # cs) \<or> contains_ic p cs)"

definition lstrip :: "string \<Rightarrow> string" where
  "lstrip s = dropWhile is_space s"

definition rstrip :: "string \<Rightarrow> string" where
  "rstrip s = rev (dropWhile is_space (rev s))"

definition strip :: "string \<Rightarrow> string" where
  "strip s = rstrip (lstrip s)"

type_synonym ('k, 'v) dict = "('k \<times> 'v) list"

definition dict_has :: "'k \<Rightarrow> ('k, 'v) dict \<Rightarrow> bool" where
  \<comment> \<open>\<^verbatim>\<open>k in d\<close>\<close>
  "dict_has k d = (k \<in> fst ` set d)"

definition dict_values :: "('k, 'v) dict \<Rightarrow> 'v list" where
  "dict_values d = map snd d"

section \<open>Credential detection\<close>

text \<open>
  \<^verbatim>\<open>detect_required_vars\<close> of the MCP compiler tries three regular expressions in turn.
  Each is modelled by a matcher anchored at the head of its argument and a scan over the
  suffixes, leftmost first, as \<^verbatim>\<open>re.search\<close> and \<^verbatim>\<open>re.findall\<close> proceed.
  In all three, a greedy repetition is followed by something its own characters cannot
  match, so the longest repetition is the only candidate and no backtracking is lost;
  the one exception (the bounded-below repetition of pattern 2, which can hand characters
  back to the literal that follows) is searched from the longest length downwards.
\<close>

definition is_var_start :: "char \<Rightarrow> bool" where
  \<comment> \<open>\<^verbatim>\<open>[A-Z_]\<close>\<close>
  "is_var_start c = (is_upper c \<or> c = CHR ''_'')"

definition is_var_char :: "char \<Rightarrow> bool" where
  \<comment> \<open>\<^verbatim>\<open>[A-Z0-9_]\<close>\<close>
  "is_var_char c = (is_upper c \<or> is_digit c \<or> c = CHR ''_'')"

fun re_search :: "(string \<Rightarrow> 'a option) \<Rightarrow> string \<Rightarrow> 'a option" where
  "re_search m [] = m []"
| "re_search m (c # cs) = (case m (c # cs) of Some r \<Rightarrow> Some r | None \<Rightarrow> re_search m cs)"

definition pattern1_at :: "string \<Rightarrow> string option" where
  \<comment> \<open>\<^verbatim>\<open>requires credentials:\s*([A-Z_][A-Z0-9_]+)\<close>, group 1\<close>
  "pattern1_at s =
     (if starts_with ''requires credentials:'' s then
        (case lstrip (drop (length ''requires credentials:'') s) of
           [] \<Rightarrow> None
         | c # cs \<Rightarrow>
             if is_var_start c \<and> takeWhile is_var_char cs \<noteq> []
             then Some (c # takeWhile is_var_char cs) else None)
      else None)"

definition pattern2_tail :: "string \<Rightarrow> bool" where
  \<comment> \<open>\<^verbatim>\<open>\s*(?:environment variable required|env.*required)\<close> under IGNORECASE; the dot
      stops at a line feed\<close>
  "pattern2_tail s =
     (let t = lstrip s in
      starts_with_ic ''environment variable required'' t \<or>
      (starts_with_ic ''env'' t \<and>
       contains_ic ''required'' (takeWhile (\<lambda>c. c \<noteq> CHR 0x0A) (drop 3 t))))"

fun pattern2_try :: "nat \<Rightarrow> char \<Rightarrow> string \<Rightarrow> string option" where
  \<comment> \<open>the repetition \<^verbatim>\<open>{2,}\<close> taking \<open>n\<close> characters, longest first\<close>
  "pattern2_try n c cs =
     (if n < 2 then None
      else if pattern2_tail (drop n cs) then Some (c # take n cs)
      else (case n of 0 \<Rightarrow> None | Suc k \<Rightarrow> pattern2_try k c cs))"

definition pattern2_at :: "string \<Rightarrow> string option" where
  \<comment> \<open>\<^verbatim>\<open>([A-Z_][A-Z0-9_]{2,})\s*(?:...)\<close> under IGNORECASE: the classes also take lower case\<close>
  "pattern2_at s =
     (case s of
        [] \<Rightarrow> None
      | c # cs \<Rightarrow>
          if is_word c \<and> \<not> is_digit c
          then pattern2_try (length (takeWhile is_word cs)) c cs
          else None)"

function findall3 :: "bool \<Rightarrow> string \<Rightarrow> string list" where
  \<comment> \<open>\<^verbatim>\<open>re.findall(r"\b([A-Z_][A-Z0-9_]{3,})\b", s)\<close>; the flag says whether the character
      before the current position is a word character\<close>
  "findall3 prev [] = []"
| "findall3 prev (c # cs) =
     (let run = takeWhile is_var_char cs; rest = dropWhile is_var_char cs in
      if \<not> prev \<and> is_var_start c \<and> 3 \<le> length run \<and>
         (case rest of [] \<Rightarrow> True | d # _ \<Rightarrow> \<not> is_word d)
      then (c # run) # findall3 True rest
      else findall3 (is_word c) cs)"
  by pat_completeness auto
termination
  by (relation "measure (\<lambda>(p, s). length s)")
     (auto simp: length_dropWhile_le less_Suc_eq_le)

definition stoplist :: "string list" where
  "stoplist = [''SERVER'', ''ERROR'', ''FAILED'', ''TIMEOUT'', ''SESSION'', ''ID'', ''MCP'', ''API'']"

fun collect_vars :: "string list \<Rightarrow> (string, string) dict \<Rightarrow> (string, string) dict" where
  "collect_vars [] vars_required = vars_required"
| "collect_vars (var_name # matches) vars_required =
     collect_vars matches
       (if var_name \<notin> set stoplist
        then AList.update var_name (''Required: '' @ var_name) vars_required
        else vars_required)"

definition detect_required_vars :: "string \<Rightarrow> (string, string) dict" where
  "detect_required_vars error_msg =
     (case re_search pattern1_at error_msg of
        Some var_name \<Rightarrow> [(var_name, ''Required: '' @ var_name)]
      | None \<Rightarrow>
          (case re_search pattern2_at error_msg of
             Some g \<Rightarrow> [(str_upper g, ''Required: '' @ str_upper g)]
           | None \<Rightarrow> collect_vars (findall3 False error_msg) []))"

section \<open>Spawn configurations\<close>

text \<open>
  A registry entry is a JSON object. The fields \<^verbatim>\<open>get_spawn_configs\<close> reads are kept as
  a record of hints; an absent key is \<open>None\<close> (or the empty list where the source
  defaults to one). \<^verbatim>\<open>server.get("raw", server)\<close> reads the nested object when there is
  one and the entry itself otherwise. A configuration is a dictionary that always holds
  the key \<^verbatim>\<open>transport\<close>; its other entries are the opaque parameters of the spawn call.
\<close>

datatype pvalue = PNone | PStr string | PList "string list" | PDict "(string \<times> string) list"

record config =
  transport :: string
  params :: "(string, pvalue) dict"

record spawn_info =
  sp_command :: "string option"
  sp_args :: "string list option"
  sp_env :: "(string \<times> string) list option"

record package =
  pkg_spawn :: "spawn_info option" \<comment> \<open>\<open>None\<close>: no \<^verbatim>\<open>spawn\<close> key, or an empty object\<close>
  pkg_registryType :: "string option"
  pkg_identifier :: "string option"

record remote =
  r_url :: "string option"
  r_type :: "string option"

record hints =
  h_packages :: "package list"
  h_remotes :: "remote list"
  h_remoteUrl :: "string option"
  h_image :: "string option"

record server =
  registryId :: string
  s_name :: string
  s_namespace :: string
  s_description :: string
  s_repoUrl :: string
  s_slug :: string
  s_source :: string
  s_origin :: string
  s_top :: hints \<comment> \<open>the hint keys of the entry itself\<close>
  s_raw :: "hints option" \<comment> \<open>the hint keys of its \<^verbatim>\<open>raw\<close> object\<close>

definition TRANSPORT_PRIORITY :: "string list" where
  "TRANSPORT_PRIORITY = [''npx'', ''stdio'', ''http'', ''docker'']"

definition deny_patterns :: "string list" where
  "deny_patterns = [''localhost'', ''127.0.0.1'', ''your-'', ''example.com'', ''0.0.0.0'']"

definition truthy :: "string option \<Rightarrow> bool" where
  "truthy v = (case v of None \<Rightarrow> False | Some s \<Rightarrow> s \<noteq> [])"

definition py_or :: "string option \<Rightarrow> string option \<Rightarrow> string option" where
  \<comment> \<open>\<^verbatim>\<open>a or b\<close>\<close>
  "py_or a b = (if truthy a then a else b)"

definition opt_pvalue :: "string option \<Rightarrow> pvalue" where
  "opt_pvalue v = (case v of None \<Rightarrow> PNone | Some s \<Rightarrow> PStr s)"

definition last_segment :: "string \<Rightarrow> string" where
  \<comment> \<open>\<^verbatim>\<open>s.split("/")[-1]\<close>\<close>
  "last_segment s = rev (takeWhile (\<lambda>c. c \<noteq> CHR ''/'') (rev s))"

definition url_allowed :: "string \<Rightarrow> bool" where
  "url_allowed url =
     (url \<noteq> [] \<and> \<not> list_ex (\<lambda>p. contains p (str_lower url)) deny_patterns)"

definition npx_config :: "spawn_info \<Rightarrow> package \<Rightarrow> config" where
  "npx_config spawn pkg =
     \<lparr>transport = ''npx'',
      params =
        [(''package'',
            (case sp_args spawn of
               Some (a # as) \<Rightarrow> PStr (last (a # as))
             | _ \<Rightarrow> opt_pvalue (pkg_identifier pkg))),
         (''args'', PList (case sp_args spawn of Some as \<Rightarrow> as | None \<Rightarrow> [])),
         (''env'', PDict (case sp_env spawn of Some e \<Rightarrow> e | None \<Rightarrow> []))]\<rparr>"

definition npm_config :: "package \<Rightarrow> config" where
  "npm_config pkg =
     \<lparr>transport = ''npx'',
      params = [(''package'', opt_pvalue (pkg_identifier pkg)), (''env'', PDict [])]\<rparr>"

definition pypi_config :: "package \<Rightarrow> config" where
  "pypi_config pkg =
     (let pkg_id = (case pkg_identifier pkg of Some i \<Rightarrow> i | None \<Rightarrow> []) in
      \<lparr>transport = ''stdio'',
       params =
         [(''command'', PStr ''uvx''),
          (''args'',
             PList [''--from'', pkg_id,
                    if contains ''/'' pkg_id then last_segment pkg_id else pkg_id]),
          (''env'', PDict [])]\<rparr>)"

fun package_configs :: "package list \<Rightarrow> config list" where
  \<comment> \<open>the loop over \<^verbatim>\<open>packages\<close>, which breaks at the first package it can use\<close>
  "package_configs [] = []"
| "package_configs (pkg # pkgs) =
     (if (case pkg_spawn pkg of Some spawn \<Rightarrow> sp_command spawn = Some ''npx'' | None \<Rightarrow> False)
      then [npx_config (the (pkg_spawn pkg)) pkg]
      else if pkg_registryType pkg = Some ''npm'' then [npm_config pkg]
      else if pkg_registryType pkg = Some ''pypi'' then [pypi_config pkg]
      else package_configs pkgs)"

fun remote_configs :: "remote list \<Rightarrow> config list" where
  "remote_configs [] = []"
| "remote_configs (r # rs) =
     (let url = (case r_url r of Some u \<Rightarrow> u | None \<Rightarrow> []) in
      if url_allowed url
      then \<lparr>transport = ''http'',
            params = [(''remoteUrl'', PStr url),
                      (''protocol'', PStr (case r_type r of Some t \<Rightarrow> t | None \<Rightarrow> ''sse''))]\<rparr>
           # remote_configs rs
      else remote_configs rs)"

definition remote_url_configs :: "hints \<Rightarrow> server \<Rightarrow> config list" where
  "remote_url_configs raw srv =
     (case py_or (h_remoteUrl raw) (h_remoteUrl (s_top srv)) of
        Some remote_url \<Rightarrow>
          if url_allowed remote_url
          then [\<lparr>transport = ''http'',
                 params = [(''remoteUrl'', PStr remote_url), (''protocol'', PStr ''sse'')]\<rparr>]
          else []
      | None \<Rightarrow> [])"

definition image_configs :: "hints \<Rightarrow> server \<Rightarrow> config list" where
  "image_configs raw srv =
     (case py_or (h_image raw) (h_image (s_top srv)) of
        Some img \<Rightarrow>
          if img \<noteq> [] then [\<lparr>transport = ''docker'', params = [(''image'', PStr img)]\<rparr>]
          else []
      | None \<Rightarrow> [])"

definition candidate_configs :: "server \<Rightarrow> config list" where
  \<comment> \<open>the list \<^verbatim>\<open>configs\<close> before deduplication\<close>
  "candidate_configs srv =
     (let raw = (case s_raw srv of Some r \<Rightarrow> r | None \<Rightarrow> s_top srv) in
      package_configs (h_packages raw) @ remote_configs (h_remotes raw) @
      remote_url_configs raw srv @ image_configs raw srv)"

fun unique_loop :: "config list \<Rightarrow> string list \<Rightarrow> config list \<Rightarrow> config list" where
  \<comment> \<open>the deduplication loop, with its variables \<^verbatim>\<open>seen\<close> and \<^verbatim>\<open>unique_configs\<close>\<close>
  "unique_loop [] seen unique_configs = unique_configs"
| "unique_loop (c # cs) seen unique_configs =
     (if transport c \<notin> set seen
      then unique_loop cs (transport c # seen) (unique_configs @ [c])
      else unique_loop cs seen unique_configs)"

definition dedupe :: "config list \<Rightarrow> config list" where
  "dedupe configs = unique_loop configs [] []"

fun index_of :: "'a \<Rightarrow> 'a list \<Rightarrow> nat option" where
  \<comment> \<open>\<^verbatim>\<open>list.index\<close>, with \<open>None\<close> for its \<^verbatim>\<open>ValueError\<close>\<close>
  "index_of x [] = None"
| "index_of x (y # ys) =
     (if x = y then Some 0 else (case index_of x ys of None \<Rightarrow> None | Some i \<Rightarrow> Some (Suc i)))"

definition priority_index :: "string \<Rightarrow> nat" where
  \<comment> \<open>\<^verbatim>\<open>TRANSPORT_PRIORITY.index(t)\<close>, or the length of the table on \<^verbatim>\<open>ValueError\<close>\<close>
  "priority_index t =
     (case index_of t TRANSPORT_PRIORITY of
        Some i \<Rightarrow> i
      | None \<Rightarrow> length TRANSPORT_PRIORITY)"

definition sort_key_of :: "config \<Rightarrow> nat" where
  \<comment> \<open>the local function \<^verbatim>\<open>sort_key\<close>\<close>
  "sort_key_of c = priority_index (transport c)"

definition sort_configs :: "config list \<Rightarrow> config list" where
  \<comment> \<open>\<^verbatim>\<open>list.sort(key=sort_key)\<close>: a stable sort, of which \<^const>\<open>sort_key\<close> is one\<close>
  "sort_configs configs = sort_key sort_key_of configs"

definition get_spawn_configs :: "server \<Rightarrow> config list" where
  "get_spawn_configs srv = sort_configs (dedupe (candidate_configs srv))"

subsection \<open>Example registry entries\<close>

definition example_hints :: hints where
  "example_hints =
     \<lparr>h_packages =
        [\<lparr>pkg_spawn = None, pkg_registryType = Some ''oci'', pkg_identifier = Some ''x''\<rparr>,
         \<lparr>pkg_spawn = None, pkg_registryType = Some ''pypi'',
          pkg_identifier = Some ''acme/weather-mcp''\<rparr>,
         \<lparr>pkg_spawn = None, pkg_registryType = Some ''npm'', pkg_identifier = Some ''weather''\<rparr>],
      h_remotes =
        [\<lparr>r_url = Some ''http://localhost:3000'', r_type = None\<rparr>,
         \<lparr>r_url = Some ''https://mcp.acme.dev/sse'', r_type = Some ''streamable-http''\<rparr>],
      h_remoteUrl = Some ''https://mcp.acme.dev/other'',
      h_image = Some ''acme/weather:1''\<rparr>"

definition no_hints :: hints where
  "no_hints = \<lparr>h_packages = [], h_remotes = [], h_remoteUrl = None, h_image = None\<rparr>"

definition example_server :: server where
  "example_server =
     \<lparr>registryId = ''mcp:acme-weather'', s_name = ''Acme Weather MCP Server'',
      s_namespace = ''acme'', s_description = ''Weather'', s_repoUrl = ''https://github.com/acme/weather-mcp'',
      s_slug = ''acme-weather'', s_source = ''registry'', s_origin = ''mcp'',
      s_top = no_hints, s_raw = Some example_hints\<rparr>"

definition example_candidates :: "config list" where
  "example_candidates =
     [\<lparr>transport = ''grpc'', params = []\<rparr>,
      \<lparr>transport = ''docker'', params = [(''image'', PStr ''i'')]\<rparr>,
      \<lparr>transport = ''ws'', params = []\<rparr>,
      \<lparr>transport = ''http'', params = [(''remoteUrl'', PStr ''u1'')]\<rparr>,
      \<lparr>transport = ''npx'', params = [(''package'', PStr ''a'')]\<rparr>,
      \<lparr>transport = ''http'', params = [(''remoteUrl'', PStr ''u2'')]\<rparr>,
      \<lparr>transport = ''grpc'', params = [(''x'', PNone)]\<rparr>]"

section \<open>Timestamps\<close>

text \<open>
  The clock is an input: a \<^verbatim>\<open>datetime\<close> value is a record of its fields. The MCP
  compiler formats \<^verbatim>\<open>datetime.now(timezone.utc).isoformat().replace("+00:00", "Z")\<close>,
  the model compiler \<^verbatim>\<open>datetime.utcnow().isoformat() + "Z"\<close>. \<^verbatim>\<open>isoformat\<close> prints
  the microseconds whenever they are not zero.
\<close>

record datetime =
  dt_year :: nat
  dt_month :: nat
  dt_day :: nat
  dt_hour :: nat
  dt_minute :: nat
  dt_second :: nat
  dt_microsecond :: nat

definition valid_datetime :: "datetime \<Rightarrow> bool" where
  "valid_datetime dt =
     (1 \<le> dt_year dt \<and> dt_year dt \<le> 9999 \<and> 1 \<le> dt_month dt \<and> dt_month dt \<le> 12 \<and>
      1 \<le> dt_day dt \<and> dt_day dt \<le> 31 \<and> dt_hour dt < 24 \<and> dt_minute dt < 60 \<and>
      dt_second dt < 60 \<and> dt_microsecond dt < 1000000)"

definition digit_char :: "nat \<Rightarrow> char" where
  "digit_char d = digit_chars ! (d mod 10)"

fun show_nat :: "nat \<Rightarrow> string" where
  "show_nat n = (if n < 10 then [digit_char n] else show_nat (n div 10) @ [digit_char n])"

declare show_nat.simps [simp del]

definition show_digits :: "bool \<Rightarrow> nat \<Rightarrow> string" where
  \<comment> \<open>the two branches of \<^const>\<open>show_nat\<close>, chosen by the outcome of its test\<close>
  "show_digits small n =
     (if small then [digit_char n] else show_nat (n div 10) @ [digit_char n])"

definition zpad :: "nat \<Rightarrow> nat \<Rightarrow> string" where
  \<comment> \<open>the format \<^verbatim>\<open>%0wd\<close>\<close>
  "zpad w n = replicate (w - length (show_nat n)) (CHR ''0'') @ show_nat n"

definition iso_seconds :: "datetime \<Rightarrow> string" where
  \<comment> \<open>\<^verbatim>\<open>YYYY-MM-DDTHH:MM:SS\<close>\<close>
  "iso_seconds dt =
     zpad 4 (dt_year dt) @ ''-'' @ zpad 2 (dt_month dt) @ ''-'' @ zpad 2 (dt_day dt) @ ''T'' @
     zpad 2 (dt_hour dt) @ '':'' @ zpad 2 (dt_minute dt) @ '':'' @ zpad 2 (dt_second dt)"

definition isoformat :: "datetime \<Rightarrow> string" where
  \<comment> \<open>\<^verbatim>\<open>isoformat()\<close> of a naive datetime\<close>
  "isoformat dt =
     iso_seconds dt @
     (if dt_microsecond dt \<noteq> 0 then ''.'' @ zpad 6 (dt_microsecond dt) else [])"

definition isoformat_utc :: "datetime \<Rightarrow> string" where
  \<comment> \<open>\<^verbatim>\<open>isoformat()\<close> of a datetime whose zone is UTC\<close>
  "isoformat_utc dt = isoformat dt @ ''+00:00''"

function str_replace :: "string \<Rightarrow> string \<Rightarrow> string \<Rightarrow> string" where
  \<comment> \<open>\<^verbatim>\<open>s.replace(old, new)\<close> for a non-empty \<open>old\<close>\<close>
  "str_replace old new [] = []"
| "str_replace old new (c # cs) =
     (if old \<noteq> [] \<and> starts_with old (c # cs)
      then new @ str_replace old new (drop (length old) (c # cs))
      else c # str_replace old new cs)"
  by pat_completeness auto
termination
  by (relation "measure (\<lambda>(old, new, s). length s)") auto

definition utc_timestamp :: "datetime \<Rightarrow> string" where
  \<comment> \<open>the MCP compiler's timestamps\<close>
  "utc_timestamp dt = str_replace ''+00:00'' ''Z'' (isoformat_utc dt)"

definition utcnow_timestamp :: "datetime \<Rightarrow> string" where
  \<comment> \<open>the model compiler's timestamps\<close>
  "utcnow_timestamp dt = isoformat dt @ ''Z''"

definition seconds_timestamp :: "datetime \<Rightarrow> string" where
  \<comment> \<open>The specification's wording: the instant with its sub-second part stripped and
      the suffix Z.\<close>
  "seconds_timestamp dt = iso_seconds dt @ ''Z''"

section \<open>The record processor\<close>

text \<open>
  The Runtime call, the two metadata generators and the clock are external; they are
  functions of an environment. \<^verbatim>\<open>spawn_server_via_runtime\<close> catches every exception and
  answers with a success object holding the tools, or with a failure object holding an
  error and an error code. The error of a failure object is whatever JSON value the
  Runtime sent as its message: a string, or something else, on which the regular
  expressions of \<^verbatim>\<open>detect_required_vars\<close> raise \<^verbatim>\<open>TypeError\<close>.
  The worker's fourth result, the status line for the log, is left out.
\<close>

record tool =
  tool_name :: string
  tool_description :: string

datatype err_payload = ErrText string | ErrOther

datatype spawn_result = SpawnOk "tool list" | SpawnFailed err_payload string

record metadata =
  md_name :: string
  md_description :: string
  md_tags :: "string list"

record backend =
  b_provider :: string
  b_model :: string
  b_fallback :: "string option"

record compiled_server =
  cs_id :: string
  cs_registryId :: string
  cs_name :: string
  cs_slug :: string
  cs_description :: string
  cs_tags :: "string list"
  cs_transport :: string
  cs_tools :: "tool list"
  cs_tool_count :: nat
  cs_spawn :: config
  cs_source :: string
  cs_compiled_at :: string
  cs_working_transport :: string
  cs_spawn_failed :: bool
  cs_vars_required :: "(string, string) dict"

record failed_server =
  fs_id :: string
  fs_registryId :: string
  fs_name :: string
  fs_description :: string
  fs_tags :: "string list"
  fs_error :: string
  fs_error_code :: string
  fs_transports_tried :: "string list"
  fs_failed_at :: string
  fs_retryable :: bool

datatype py_exception = TypeError | ZeroDivisionError

datatype future_result =
  Raised py_exception
| Returned "compiled_server option" "failed_server option" bool

record environment =
  spawn_server_via_runtime :: "string \<Rightarrow> config \<Rightarrow> spawn_result"
  clean_server_with_tools ::
    "string \<Rightarrow> string \<Rightarrow> string \<Rightarrow> string \<Rightarrow> tool list \<Rightarrow> backend \<Rightarrow> metadata option"
  clean_server_from_repo ::
    "string \<Rightarrow> string \<Rightarrow> string \<Rightarrow> string \<Rightarrow> string \<Rightarrow> backend \<Rightarrow> metadata option"
  worker_now :: "string \<Rightarrow> datetime" \<comment> \<open>the clock as the worker of a record reads it\<close>
  main_now :: "nat \<Rightarrow> datetime" \<comment> \<open>the successive clock readings of the main thread\<close>
  completion_time :: "nat \<Rightarrow> nat" \<comment> \<open>when the future submitted at a position completes\<close>

definition spawn_success :: "spawn_result \<Rightarrow> bool" where
  "spawn_success r = (case r of SpawnOk ts \<Rightarrow> True | SpawnFailed e c \<Rightarrow> False)"

definition spawn_tools :: "spawn_result \<Rightarrow> tool list" where
  "spawn_tools r = (case r of SpawnOk ts \<Rightarrow> ts | SpawnFailed e c \<Rightarrow> [])"

definition spawn_error :: "spawn_result \<Rightarrow> err_payload" where
  \<comment> \<open>\<^verbatim>\<open>result.get("error", "")\<close>\<close>
  "spawn_error r = (case r of SpawnOk ts \<Rightarrow> ErrText [] | SpawnFailed e c \<Rightarrow> e)"

definition spawn_error_code :: "spawn_result \<Rightarrow> string" where
  "spawn_error_code r = (case r of SpawnOk ts \<Rightarrow> [] | SpawnFailed e c \<Rightarrow> c)"

definition compiled_with_tools ::
  "environment \<Rightarrow> server \<Rightarrow> config \<Rightarrow> tool list \<Rightarrow> metadata \<Rightarrow> compiled_server" where
  "compiled_with_tools env srv cfg tools llm_result =
     \<lparr>cs_id = registryId srv, cs_registryId = registryId srv, cs_name = md_name llm_result,
      cs_slug = s_slug srv, cs_description = md_description llm_result,
      cs_tags = md_tags llm_result, cs_transport = transport cfg, cs_tools = tools,
      cs_tool_count = length tools, cs_spawn = cfg, cs_source = s_source srv,
      cs_compiled_at = utc_timestamp (worker_now env (registryId srv)),
      cs_working_transport = transport cfg, cs_spawn_failed = False, cs_vars_required = []\<rparr>"

definition compiled_needs_credentials ::
  "environment \<Rightarrow> server \<Rightarrow> config \<Rightarrow> (string, string) dict \<Rightarrow> metadata \<Rightarrow> compiled_server" where
  "compiled_needs_credentials env srv cfg vars_required llm_result =
     \<lparr>cs_id = registryId srv, cs_registryId = registryId srv, cs_name = md_name llm_result,
      cs_slug = s_slug srv, cs_description = md_description llm_result,
      cs_tags = md_tags llm_result, cs_transport = transport cfg, cs_tools = [],
      cs_tool_count = 0, cs_spawn = cfg, cs_source = s_source srv,
      cs_compiled_at = utc_timestamp (worker_now env (registryId srv)),
      cs_working_transport = transport cfg, cs_spawn_failed = True,
      cs_vars_required = vars_required\<rparr>"

definition failed_entry ::
  "environment \<Rightarrow> server \<Rightarrow> backend \<Rightarrow> string list \<Rightarrow> string \<Rightarrow> string \<Rightarrow> failed_server" where
  \<comment> \<open>all transports failed: metadata from the repository only, for the failed entry\<close>
  "failed_entry env srv b transports_tried last_error last_error_code =
     (let llm_result =
            clean_server_from_repo env (registryId srv) (s_name srv) (s_namespace srv)
              (s_repoUrl srv) (s_description srv) b
      in \<lparr>fs_id = registryId srv, fs_registryId = registryId srv,
          fs_name = (case llm_result of Some m \<Rightarrow> md_name m | None \<Rightarrow> s_name srv),
          fs_description =
            (case llm_result of Some m \<Rightarrow> md_description m | None \<Rightarrow> s_description srv),
          fs_tags = (case llm_result of Some m \<Rightarrow> md_tags m | None \<Rightarrow> []),
          fs_error = last_error, fs_error_code = last_error_code,
          fs_transports_tried = transports_tried,
          fs_failed_at = utc_timestamp (worker_now env (registryId srv)),
          fs_retryable = False\<rparr>)"

fun try_configs ::
  "environment \<Rightarrow> server \<Rightarrow> backend \<Rightarrow> config list \<Rightarrow> string list \<Rightarrow> string \<Rightarrow> string
     \<Rightarrow> future_result" where
  \<comment> \<open>the loop over \<^verbatim>\<open>spawn_configs\<close> with the variables \<^verbatim>\<open>transports_tried\<close>,
      \<^verbatim>\<open>last_error\<close>, \<^verbatim>\<open>last_error_code\<close>, and the code after it\<close>
  "try_configs env srv b [] transports_tried last_error last_error_code =
     Returned None (Some (failed_entry env srv b transports_tried last_error last_error_code))
       False"
| "try_configs env srv b (cfg # cfgs) transports_tried last_error last_error_code =
     (let result = spawn_server_via_runtime env (registryId srv) cfg;
          tried = transports_tried @ [transport cfg];
          with_tools =
            (if spawn_success result \<and> spawn_tools result \<noteq> []
             then clean_server_with_tools env (registryId srv) (s_name srv) (s_namespace srv)
                    (s_repoUrl srv) (spawn_tools result) b
             else None)
      in case with_tools of
           Some llm_result \<Rightarrow>
             Returned (Some (compiled_with_tools env srv cfg (spawn_tools result) llm_result))
               None True
         | None \<Rightarrow>
             (case spawn_error result of
                ErrOther \<Rightarrow> Raised TypeError
              | ErrText error_msg \<Rightarrow>
                  (let vars_required = detect_required_vars error_msg;
                       from_repo =
                         (if vars_required \<noteq> []
                          then clean_server_from_repo env (registryId srv) (s_name srv)
                                 (s_namespace srv) (s_repoUrl srv) (s_description srv) b
                          else None)
                   in case from_repo of
                        Some llm_result \<Rightarrow>
                          Returned
                            (Some (compiled_needs_credentials env srv cfg vars_required
                                     llm_result))
                            None True
                      | None \<Rightarrow>
                          try_configs env srv b cfgs tried error_msg
                            (spawn_error_code result))))"

definition process_server_with_model ::
  "environment \<Rightarrow> server \<times> nat \<times> backend list \<Rightarrow> future_result" where
  "process_server_with_model env args =
     (case args of (srv, model_idx, backends) \<Rightarrow>
        if backends = [] then Raised ZeroDivisionError
        else try_configs env srv (backends ! (model_idx mod length backends))
               (get_spawn_configs srv) [] [] [])"

section \<open>The MCP compiler\<close>

text \<open>
  The compiler object is a record of its fields together with the three output files it
  reads and writes; every write is also appended to a log, so that the flushes of a run
  can be counted. The timestamp of a write is the next reading of the main thread's
  clock. The backends are the three entries of \<^verbatim>\<open>LLMService.BACKENDS\<close>.
\<close>

record Progress =
  pr_phase :: int
  pr_processed :: int
  pr_total :: int
  pr_last_processed_id :: string
  pr_started_at :: string
  pr_updated_at :: string
  pr_success_count :: int
  pr_failed_count :: int
  pr_retry_count :: int

record compiled_doc =
  cd_compiledAt :: string
  cd_totalCount :: int
  cd_successCount :: int
  cd_failedCount :: int
  cd_retryCount :: int
  cd_servers :: "compiled_server list"

record failed_doc =
  fd_failedAt :: string
  fd_totalCount :: int
  fd_servers :: "failed_server list"

datatype file_write = WroteProgress Progress | WroteCompiled compiled_doc | WroteFailed failed_doc

record files =
  registryRefined_json :: "server list"
  progress_json :: "Progress option"
  mcpCompiled_json :: "compiled_doc option"
  failedServers_json :: "failed_doc option"
  write_log :: "file_write list"

record MCPCompiler =
  servers :: "server list"
  compiled :: "(string, compiled_server) dict"
  failed :: "(string, failed_server) dict"
  progress :: Progress
  disk :: files
  clock_reads :: nat

definition CHECKPOINT_INTERVAL :: nat where
  "CHECKPOINT_INTERVAL = 15"

definition BACKENDS :: "backend list" where
  "BACKENDS =
     [\<lparr>b_provider = ''qwen'', b_model = ''qwen/qwen3-32b'',
       b_fallback = Some ''meta-llama/llama-3.3-70b-instruct''\<rparr>,
      \<lparr>b_provider = ''nousresearch'', b_model = ''nousresearch/hermes-4-70b'',
       b_fallback = Some ''meta-llama/llama-3.3-70b-instruct''\<rparr>,
      \<lparr>b_provider = ''minimax'', b_model = ''minimax/minimax-m2.1'',
       b_fallback = Some ''qwen/qwen3-32b''\<rparr>]"

definition new_progress :: Progress where
  \<comment> \<open>\<^verbatim>\<open>Progress()\<close>\<close>
  "new_progress =
     \<lparr>pr_phase = 1, pr_processed = 0, pr_total = 0, pr_last_processed_id = [],
      pr_started_at = [], pr_updated_at = [], pr_success_count = 0, pr_failed_count = 0,
      pr_retry_count = 0\<rparr>"

fun load_entries :: "compiled_server list \<Rightarrow> (string, compiled_server) dict
    \<Rightarrow> (string, compiled_server) dict" where
  \<comment> \<open>the dictionary comprehension \<^verbatim>\<open>{s["id"]: s for s in ...}\<close>\<close>
  "load_entries [] d = d"
| "load_entries (s # ss) d = load_entries ss (AList.update (cs_id s) s d)"

definition load_compiled :: "files \<Rightarrow> (string, compiled_server) dict" where
  "load_compiled fs =
     (case mcpCompiled_json fs of Some doc \<Rightarrow> load_entries (cd_servers doc) [] | None \<Rightarrow> [])"

definition load_progress :: "files \<Rightarrow> Progress option" where
  "load_progress fs = progress_json fs"

definition MCPCompiler_init :: "files \<Rightarrow> MCPCompiler" where
  \<comment> \<open>\<^verbatim>\<open>MCPCompiler.__init__\<close>\<close>
  "MCPCompiler_init fs =
     \<lparr>servers = [], compiled = load_compiled fs, failed = [], progress = new_progress,
      disk = fs, clock_reads = 0\<rparr>"

definition load_servers :: "MCPCompiler \<Rightarrow> MCPCompiler" where
  "load_servers st =
     st\<lparr>servers := filter (\<lambda>s. s_origin s = ''mcp'') (registryRefined_json (disk st))\<rparr>"

definition read_clock :: "environment \<Rightarrow> MCPCompiler \<Rightarrow> string" where
  "read_clock env st = utc_timestamp (main_now env (clock_reads st))"

definition tick :: "MCPCompiler \<Rightarrow> MCPCompiler" where
  "tick st = st\<lparr>clock_reads := Suc (clock_reads st)\<rparr>"

definition save_progress :: "environment \<Rightarrow> MCPCompiler \<Rightarrow> MCPCompiler" where
  "save_progress env st =
     (let p = (progress st)\<lparr>pr_updated_at := read_clock env st\<rparr> in
      tick (st\<lparr>progress := p,
               disk := (disk st)\<lparr>progress_json := Some p,
                                 write_log := write_log (disk st) @ [WroteProgress p]\<rparr>\<rparr>))"

definition save_compiled :: "environment \<Rightarrow> MCPCompiler \<Rightarrow> MCPCompiler" where
  "save_compiled env st =
     (let doc = \<lparr>cd_compiledAt = read_clock env st,
                 cd_totalCount = int (length (dict_values (compiled st))),
                 cd_successCount = pr_success_count (progress st),
                 cd_failedCount = int (length (failed st)),
                 cd_retryCount = pr_retry_count (progress st),
                 cd_servers = dict_values (compiled st)\<rparr> in
      tick (st\<lparr>disk := (disk st)\<lparr>mcpCompiled_json := Some doc,
                                 write_log := write_log (disk st) @ [WroteCompiled doc]\<rparr>\<rparr>))"

definition save_failed :: "environment \<Rightarrow> MCPCompiler \<Rightarrow> MCPCompiler" where
  "save_failed env st =
     (let doc = \<lparr>fd_failedAt = read_clock env st,
                 fd_totalCount = int (length (dict_values (failed st))),
                 fd_servers = dict_values (failed st)\<rparr> in
      tick (st\<lparr>disk := (disk st)\<lparr>failedServers_json := Some doc,
                                 write_log := write_log (disk st) @ [WroteFailed doc]\<rparr>\<rparr>))"

definition checkpoint :: "environment \<Rightarrow> MCPCompiler \<Rightarrow> MCPCompiler" where
  \<comment> \<open>the three saves of a flush, in the order of the source\<close>
  "checkpoint env st = save_failed env (save_compiled env (save_progress env st))"

fun find_index :: "('a \<Rightarrow> bool) \<Rightarrow> 'a list \<Rightarrow> nat option" where
  "find_index P [] = None"
| "find_index P (x # xs) =
     (if P x then Some 0 else (case find_index P xs of None \<Rightarrow> None | Some i \<Rightarrow> Some (Suc i)))"

definition py_slice_to :: "int \<Rightarrow> 'a list \<Rightarrow> 'a list" where
  \<comment> \<open>\<^verbatim>\<open>xs[:n]\<close>; a negative bound counts from the end\<close>
  "py_slice_to n xs = (if 0 \<le> n then take (nat n) xs else take (length xs - nat (- n)) xs)"

definition apply_limit :: "int option \<Rightarrow> 'a list \<Rightarrow> 'a list" where
  \<comment> \<open>\<^verbatim>\<open>if limit: xs = xs[:limit]\<close>\<close>
  "apply_limit limit xs =
     (case limit of None \<Rightarrow> xs | Some n \<Rightarrow> if n \<noteq> 0 then py_slice_to n xs else xs)"

definition resume_progress :: "bool \<Rightarrow> MCPCompiler \<Rightarrow> MCPCompiler" where
  "resume_progress resume st =
     (if resume
      then (case load_progress (disk st) of Some p \<Rightarrow> st\<lparr>progress := p\<rparr> | None \<Rightarrow> st)
      else st)"

definition servers_to_process :: "int option \<Rightarrow> bool \<Rightarrow> MCPCompiler \<Rightarrow> server list" where
  \<comment> \<open>after the progress document is loaded: the slice behind the last processed id,
      the limit, and the filter on the compiled map\<close>
  "servers_to_process limit resume st =
     (let all_servers = servers st;
          resumed =
            (if resume \<and> pr_last_processed_id (progress st) \<noteq> []
             then drop
                    ((case find_index (\<lambda>s. registryId s = pr_last_processed_id (progress st))
                             all_servers of
                        Some i \<Rightarrow> i | None \<Rightarrow> 0) + 1)
                    all_servers
             else all_servers)
      in filter (\<lambda>s. \<not> dict_has (registryId s) (compiled st)) (apply_limit limit resumed))"

definition start_progress :: "environment \<Rightarrow> MCPCompiler \<Rightarrow> MCPCompiler" where
  "start_progress env st =
     (let p = (progress st)\<lparr>pr_total := int (length (servers st)), pr_phase := 1\<rparr> in
      if pr_started_at p = []
      then tick (st\<lparr>progress := p\<lparr>pr_started_at := read_clock env st\<rparr>\<rparr>)
      else st\<lparr>progress := p\<rparr>)"

definition process_args :: "server list \<Rightarrow> (server \<times> nat \<times> backend list) list" where
  \<comment> \<open>the argument tuples of the submitted tasks: \<^verbatim>\<open>num_models\<close> is the number of
      backends\<close>
  "process_args to_process =
     (let num_models = length BACKENDS in
      map (\<lambda>(idx, srv). (srv, idx mod num_models, BACKENDS)) (enumerate 0 to_process))"

definition phase1_args :: "nat \<Rightarrow> server list \<Rightarrow> (server \<times> nat \<times> backend list) list" where
  \<comment> \<open>the tuples \<^verbatim>\<open>run_phase1\<close> submits when it is called with \<open>workers\<close>: the source
      does not read that parameter\<close>
  "phase1_args workers to_process = process_args to_process"

definition as_completed :: "environment \<Rightarrow> 'a list \<Rightarrow> 'a list" where
  \<comment> \<open>the futures in the order of their completion\<close>
  "as_completed env futures =
     map snd (sort_key (\<lambda>p. completion_time env (fst p)) (enumerate 0 futures))"

definition completions ::
  "environment \<Rightarrow> (server \<times> nat \<times> backend list) list \<Rightarrow> (server \<times> future_result) list" where
  \<comment> \<open>each submitted record with the outcome of its future, in completion order\<close>
  "completions env args =
     as_completed env (map (\<lambda>arg. (fst arg, process_server_with_model env arg)) args)"

definition count_processed :: "string option \<Rightarrow> MCPCompiler \<Rightarrow> MCPCompiler" where
  "count_processed last_id st =
     st\<lparr>progress := (progress st)
          \<lparr>pr_processed := pr_processed (progress st) + 1,
           pr_last_processed_id :=
             (case last_id of Some i \<Rightarrow> i | None \<Rightarrow> pr_last_processed_id (progress st))\<rparr>\<rparr>"

definition count_success :: "MCPCompiler \<Rightarrow> MCPCompiler" where
  "count_success st =
     st\<lparr>progress := (progress st)\<lparr>pr_success_count := pr_success_count (progress st) + 1\<rparr>\<rparr>"

definition count_failed :: "MCPCompiler \<Rightarrow> MCPCompiler" where
  "count_failed st =
     st\<lparr>progress := (progress st)\<lparr>pr_failed_count := pr_failed_count (progress st) + 1\<rparr>\<rparr>"

definition count_retry :: "MCPCompiler \<Rightarrow> MCPCompiler" where
  "count_retry st =
     st\<lparr>progress := (progress st)\<lparr>pr_retry_count := pr_retry_count (progress st) + 1\<rparr>\<rparr>"

definition store_compiled :: "string \<Rightarrow> compiled_server option \<Rightarrow> bool \<Rightarrow> MCPCompiler \<Rightarrow> MCPCompiler" where
  \<comment> \<open>the branch \<^verbatim>\<open>if compiled:\<close> of phase 1\<close>
  "store_compiled registry_id c success st =
     (case c of
        None \<Rightarrow> st
      | Some entry \<Rightarrow>
          (let st' = st\<lparr>compiled := AList.update registry_id entry (compiled st)\<rparr> in
           if success \<and> cs_vars_required entry = [] then count_success st'
           else count_failed st'))"

definition store_failed :: "string \<Rightarrow> failed_server option \<Rightarrow> MCPCompiler \<Rightarrow> MCPCompiler" where
  \<comment> \<open>the branch \<^verbatim>\<open>if failed:\<close> of phase 1\<close>
  "store_failed registry_id f st =
     (case f of
        None \<Rightarrow> st
      | Some entry \<Rightarrow> count_failed (st\<lparr>failed := AList.update registry_id entry (failed st)\<rparr>))"

definition phase1_step ::
  "environment \<Rightarrow> nat \<times> MCPCompiler \<Rightarrow> server \<times> future_result \<Rightarrow> nat \<times> MCPCompiler" where
  \<comment> \<open>one iteration of the loop over \<^verbatim>\<open>as_completed(futures)\<close>; the first component is
      \<^verbatim>\<open>checkpoint_counter\<close>\<close>
  "phase1_step env acc done =
     (case acc of (checkpoint_counter, st) \<Rightarrow>
      case done of (srv, res) \<Rightarrow>
        (case res of
           Raised e \<Rightarrow> (checkpoint_counter, count_processed None st)
         | Returned c f success \<Rightarrow>
             (let st' = count_processed (Some (registryId srv))
                          (store_failed (registryId srv) f
                             (store_compiled (registryId srv) c success st))
              in if CHECKPOINT_INTERVAL \<le> checkpoint_counter + 1 then (0, checkpoint env st')
                 else (checkpoint_counter + 1, st'))))"

definition phase1_loop ::
  "environment \<Rightarrow> (server \<times> future_result) list \<Rightarrow> nat \<times> MCPCompiler \<Rightarrow> nat \<times> MCPCompiler" where
  "phase1_loop env done acc = foldl (phase1_step env) acc done"

definition run_phase1 ::
  "environment \<Rightarrow> int option \<Rightarrow> bool \<Rightarrow> nat \<Rightarrow> MCPCompiler \<Rightarrow> MCPCompiler" where
  "run_phase1 env limit resume workers st =
     (let st1 = resume_progress resume st;
          to_process = servers_to_process limit resume st1;
          st2 = start_progress env st1
      in if to_process = [] then st2
         else checkpoint env
                (snd (phase1_loop env (completions env (phase1_args workers to_process)) (0, st2))))"

definition retryable_failed :: "MCPCompiler \<Rightarrow> server \<Rightarrow> bool" where
  \<comment> \<open>\<^verbatim>\<open>registry_id in self.failed\<close> and the entry's \<^verbatim>\<open>retryable\<close> flag\<close>
  "retryable_failed st s =
     (case map_of (failed st) (registryId s) of
        Some entry \<Rightarrow> fs_retryable entry
      | None \<Rightarrow> False)"

definition servers_to_retry :: "int option \<Rightarrow> MCPCompiler \<Rightarrow> server list" where
  "servers_to_retry limit st = apply_limit limit (filter (retryable_failed st) (servers st))"

fun remove_failed :: "server list \<Rightarrow> MCPCompiler \<Rightarrow> MCPCompiler" where
  \<comment> \<open>remove from \<^verbatim>\<open>failed\<close> before the retry\<close>
  "remove_failed [] st = st"
| "remove_failed (s # ss) st =
     remove_failed ss (st\<lparr>failed := AList.delete (registryId s) (failed st)\<rparr>)"

definition phase2_step :: "MCPCompiler \<Rightarrow> server \<times> future_result \<Rightarrow> MCPCompiler" where
  "phase2_step st done =
     (case done of (srv, res) \<Rightarrow>
        (case res of
           Raised e \<Rightarrow> st
         | Returned c f success \<Rightarrow>
             (let st1 =
                    (case c of
                       None \<Rightarrow> st
                     | Some entry \<Rightarrow>
                         (let st' = st\<lparr>compiled :=
                                        AList.update (registryId srv) entry (compiled st)\<rparr> in
                          if success \<and> cs_vars_required entry = []
                          then count_retry (count_success st')
                          else count_failed st'))
              in case f of
                   None \<Rightarrow> st1
                 | Some entry \<Rightarrow>
                     st1\<lparr>failed := AList.update (registryId srv)
                                     (entry\<lparr>fs_retryable := False\<rparr>) (failed st1)\<rparr>)))"

definition run_phase2 :: "environment \<Rightarrow> int option \<Rightarrow> MCPCompiler \<Rightarrow> MCPCompiler" where
  "run_phase2 env limit st =
     (let to_retry = servers_to_retry limit st in
      if to_retry = [] then st
      else save_failed env
             (save_compiled env
                (foldl phase2_step (remove_failed to_retry st)
                   (completions env (process_args to_retry)))))"

definition run_all ::
  "environment \<Rightarrow> int option \<Rightarrow> bool \<Rightarrow> nat \<Rightarrow> MCPCompiler \<Rightarrow> MCPCompiler" where
  "run_all env limit resume workers st =
     run_phase2 env limit (run_phase1 env limit resume workers st)"

definition compiled_ids :: "MCPCompiler \<Rightarrow> string set" where
  \<comment> \<open>the keys of the compiled map\<close>
  "compiled_ids st = fst ` set (compiled st)"

definition failed_ids :: "MCPCompiler \<Rightarrow> string set" where
  \<comment> \<open>the keys of the failed map\<close>
  "failed_ids st = fst ` set (failed st)"

definition stored_compiled :: "(server \<times> future_result) list \<Rightarrow> string set" where
  \<comment> \<open>the ids whose completion handed a compiled entry to the main loop\<close>
  "stored_compiled xs = {registryId srv | srv c f b. (srv, Returned (Some c) f b) \<in> set xs}"

definition stored_failed :: "(server \<times> future_result) list \<Rightarrow> string set" where
  \<comment> \<open>the ids whose completion handed a failed entry to the main loop\<close>
  "stored_failed xs = {registryId srv | srv c f b. (srv, Returned c (Some f) b) \<in> set xs}"

subsection \<open>An example run\<close>

definition example_record :: "string \<Rightarrow> server" where
  "example_record i =
     \<lparr>registryId = i, s_name = ''N'', s_namespace = ''ns'', s_description = ''d'',
      s_repoUrl = ''r'', s_slug = ''s'', s_source = ''src'', s_origin = ''mcp'',
      s_top = \<lparr>h_packages = [], h_remotes = [], h_remoteUrl = None, h_image = Some ''img''\<rparr>,
      s_raw = None\<rparr>"

definition example_datetime :: datetime where
  "example_datetime =
     \<lparr>dt_year = 2024, dt_month = 1, dt_day = 2, dt_hour = 3, dt_minute = 4, dt_second = 5,
      dt_microsecond = 678901\<rparr>"

definition example_metadata :: metadata where
  "example_metadata = \<lparr>md_name = ''Name'', md_description = ''Desc'', md_tags = [''x'', ''y'']\<rparr>"

definition example_env :: environment where
  \<comment> \<open>record a spawns with one tool, b gets an error object whose message is not a
      string, c needs a credential, every other record fails; metadata generation works
      except from the repository of d; the futures complete in reverse order\<close>
  "example_env =
     \<lparr>spawn_server_via_runtime =
        (\<lambda>i c. if i = ''a'' then SpawnOk [\<lparr>tool_name = ''t'', tool_description = ''d''\<rparr>]
               else if i = ''b'' then SpawnFailed ErrOther ''X''
               else if i = ''c'' then SpawnFailed (ErrText ''requires credentials: API_KEY.'') ''AUTH''
               else SpawnFailed (ErrText ''boom'') ''E''),
      clean_server_with_tools = (\<lambda>i n ns r ts b. Some example_metadata),
      clean_server_from_repo = (\<lambda>i n ns r d b. if i = ''d'' then None else Some example_metadata),
      worker_now = (\<lambda>i. example_datetime),
      main_now = (\<lambda>n. example_datetime),
      completion_time = (\<lambda>n. 10 - n)\<rparr>"

definition example_disk :: files where
  "example_disk =
     \<lparr>registryRefined_json = map example_record [''a'', ''b'', ''c'', ''d''],
      progress_json = None, mcpCompiled_json = None, failedServers_json = None,
      write_log = []\<rparr>"

definition example_failed :: failed_server where
  "example_failed =
     \<lparr>fs_id = ''d'', fs_registryId = ''d'', fs_name = ''N'', fs_description = ''d'',
      fs_tags = [], fs_error = ''boom'', fs_error_code = ''E'',
      fs_transports_tried = [''docker''], fs_failed_at = ''2024-01-02T03:04:05Z'',
      fs_retryable = True\<rparr>"

definition one_outcome :: "future_result \<Rightarrow> bool" where
  \<comment> \<open>a worker that returns hands over a compiled entry or a failed entry, not both\<close>
  "one_outcome res =
     (case res of Raised e \<Rightarrow> True | Returned c f b \<Rightarrow> (c = None) \<noteq> (f = None))"

definition placed :: "MCPCompiler \<Rightarrow> server \<times> future_result \<Rightarrow> bool" where
  \<comment> \<open>where the id of a completed record stands: in neither map when its worker raised,
      in exactly one of them when it returned\<close>
  "placed st p =
     (case snd p of
        Raised e \<Rightarrow> registryId (fst p) \<notin> compiled_ids st \<and> registryId (fst p) \<notin> failed_ids st
      | Returned c f b \<Rightarrow>
          (registryId (fst p) \<in> compiled_ids st) \<noteq> (registryId (fst p) \<in> failed_ids st))"

definition raising_disk :: files where
  \<comment> \<open>a registry of the one record whose spawn error is not a string\<close>
  "raising_disk =
     \<lparr>registryRefined_json = [example_record ''b''],
      progress_json = None, mcpCompiled_json = None, failedServers_json = None,
      write_log = []\<rparr>"

subsection \<open>Observing the flushes\<close>

datatype file_kind = ProgressFile | CompiledFile | FailedFile

definition written_file :: "file_write \<Rightarrow> file_kind" where
  "written_file w =
     (case w of WroteProgress p \<Rightarrow> ProgressFile | WroteCompiled d \<Rightarrow> CompiledFile
      | WroteFailed d \<Rightarrow> FailedFile)"

fun progress_marks :: "file_write list \<Rightarrow> int list" where
  \<comment> \<open>the processed counts of the progress documents written, in order\<close>
  "progress_marks [] = []"
| "progress_marks (WroteProgress p # ws) = pr_processed p # progress_marks ws"
| "progress_marks (w # ws) = progress_marks ws"

definition written_files :: "MCPCompiler \<Rightarrow> file_kind list" where
  "written_files st = map written_file (write_log (disk st))"

definition flush_marks :: "MCPCompiler \<Rightarrow> int list" where
  "flush_marks st = progress_marks (write_log (disk st))"

subsection \<open>Examples of a batch whose workers raise, and of a resumed run\<close>

definition raising_env :: environment where
  \<comment> \<open>every spawn answers with an error object whose message is not a string\<close>
  "raising_env = example_env\<lparr>spawn_server_via_runtime := (\<lambda>i c. SpawnFailed ErrOther ''X'')\<rparr>"

definition crowd_disk :: files where
  \<comment> \<open>a registry of 37 records\<close>
  "crowd_disk =
     \<lparr>registryRefined_json = map (\<lambda>k. example_record (replicate k (CHR ''r''))) [1..<38],
      progress_json = None, mcpCompiled_json = None, failedServers_json = None,
      write_log = []\<rparr>"

definition resumed_disk :: files where
  \<comment> \<open>the files an interrupted run left: record x was processed and failed\<close>
  "resumed_disk =
     \<lparr>registryRefined_json = [example_record ''x'', example_record ''d''],
      progress_json =
        Some (new_progress\<lparr>pr_processed := 1, pr_total := 2, pr_last_processed_id := ''x'',
                           pr_started_at := ''2024-01-01T00:00:00Z'', pr_failed_count := 1\<rparr>),
      mcpCompiled_json =
        Some \<lparr>cd_compiledAt = ''2024-01-01T00:00:01Z'', cd_totalCount = 0, cd_successCount = 0,
              cd_failedCount = 1, cd_retryCount = 0, cd_servers = []\<rparr>,
      failedServers_json =
        Some \<lparr>fd_failedAt = ''2024-01-01T00:00:01Z'', fd_totalCount = 1,
              fd_servers = [example_failed\<lparr>fs_id := ''x'', fs_registryId := ''x''\<rparr>]\<rparr>,
      write_log = []\<rparr>"

section \<open>The model compiler\<close>

text \<open>
  The second pipeline pairs the model at position \<open>i\<close> with the backend
  \<open>i mod len(backends)\<close> of its own five backends; its pool size is the separate
  parameter \<^verbatim>\<open>workers\<close>. Models are left abstract.
\<close>

record model_backend =
  mb_provider :: string
  mb_model :: string
  mb_endpoint :: string

definition MODEL_BACKENDS :: "model_backend list" where
  "MODEL_BACKENDS =
     [\<lparr>mb_provider = ''ollama'', mb_model = ''qwen'', mb_endpoint = ''/ollama/qwen/chat''\<rparr>,
      \<lparr>mb_provider = ''ollama'', mb_model = ''qwen-14b'', mb_endpoint = ''/ollama/qwen-14b/chat''\<rparr>,
      \<lparr>mb_provider = ''ollama'', mb_model = ''mistral'', mb_endpoint = ''/ollama/mistral/chat''\<rparr>,
      \<lparr>mb_provider = ''ollama'', mb_model = ''gemma'', mb_endpoint = ''/ollama/gemma/chat''\<rparr>,
      \<lparr>mb_provider = ''ollama'', mb_model = ''llava'', mb_endpoint = ''/ollama/llava/chat''\<rparr>]"

definition model_tasks :: "nat \<Rightarrow> 'm list \<Rightarrow> ('m \<times> model_backend) list" where
  \<comment> \<open>the list \<^verbatim>\<open>tasks\<close> of \<^verbatim>\<open>ModelCompiler.run\<close>, called with \<open>workers\<close>\<close>
  "model_tasks workers models_to_process =
     map (\<lambda>(i, model). (model, MODEL_BACKENDS ! (i mod length MODEL_BACKENDS)))
       (enumerate 0 models_to_process)"

section \<open>Theorems\<close>

subsection \<open>Evaluation of the decimal digits\<close>

text \<open>
  The equation of \<^const>\<open>show_nat\<close> is unfolded only once its test is decided.
\<close>

lemma show_nat_code [code]: "show_nat n = show_digits (n < 10) n"
  by (subst show_nat.simps) (simp add: show_digits_def)

lemma show_digits_code [code]:
  "show_digits True n = [digit_char n]"
  "show_digits False n = show_nat (n div 10) @ [digit_char n]"
  by (simp_all add: show_digits_def)

text \<open>
  C3. For the Runtime's error message
  \<^verbatim>\<open>Server "mcp:x" requires credentials: API_KEY. Add your key...\<close>
  credential detection returns the one-entry mapping from \<^verbatim>\<open>API_KEY\<close> to
  \<^verbatim>\<open>Required: API_KEY\<close> and nothing else, although the message holds other upper-case
  tokens.
\<close>

theorem detect_required_vars_api_key:
  "detect_required_vars ''Server \"mcp:x\" requires credentials: API_KEY. Add your key...''
     = [(''API_KEY'', ''Required: API_KEY'')]"
  by code_simp

subsection \<open>Deduplication and priority order of spawn configurations\<close>

lemma unique_loop_append:
  "unique_loop cs seen acc = acc @ unique_loop cs seen []"
proof (induction cs arbitrary: seen acc)
  case Nil
  then show ?case by simp
next
  case (Cons c cs)
  show ?case
  proof (cases "transport c \<in> set seen")
    case True
    then show ?thesis using Cons.IH[of seen acc] by simp
  next
    case False
    then show ?thesis
      using Cons.IH[of "transport c # seen" "acc @ [c]"] Cons.IH[of "transport c # seen" "[c]"]
      by simp
  qed
qed

lemma unique_loop_Cons:
  "unique_loop (c # cs) seen [] =
     (if transport c \<in> set seen then unique_loop cs seen []
      else c # unique_loop cs (transport c # seen) [])"
  using unique_loop_append[of cs "transport c # seen" "[c]"] by simp

lemma set_unique_loop:
  "transport ` set (unique_loop cs seen []) = transport ` set cs - set seen"
  by (induction cs arbitrary: seen) (auto simp: unique_loop_Cons simp del: unique_loop.simps(2))

lemma distinct_unique_loop:
  "distinct (map transport (unique_loop cs seen []))"
proof (induction cs arbitrary: seen)
  case Nil
  then show ?case by simp
next
  case (Cons c cs)
  have "transport c \<notin> transport ` set (unique_loop cs (transport c # seen) [])"
    by (simp add: set_unique_loop)
  then show ?case using Cons.IH by (simp add: unique_loop_Cons del: unique_loop.simps)
qed

lemma find_unique_loop:
  "c \<in> set (unique_loop cs seen []) \<Longrightarrow> List.find (\<lambda>d. transport d = transport c) cs = Some c"
proof (induction cs arbitrary: seen)
  case Nil
  then show ?case by simp
next
  case (Cons a cs)
  show ?case
  proof (cases "transport a \<in> set seen")
    case True
    with Cons.prems have in_rest: "c \<in> set (unique_loop cs seen [])"
      by (simp add: unique_loop_Cons del: unique_loop.simps)
    then have "transport c \<in> transport ` set cs - set seen"
      using set_unique_loop[of cs seen] by blast
    with True have "transport a \<noteq> transport c" by auto
    with Cons.IH[OF in_rest] show ?thesis by simp
  next
    case False
    with Cons.prems have "c = a \<or> c \<in> set (unique_loop cs (transport a # seen) [])"
      by (simp add: unique_loop_Cons del: unique_loop.simps)
    then show ?thesis
    proof
      assume "c = a" then show ?thesis by simp
    next
      assume in_rest: "c \<in> set (unique_loop cs (transport a # seen) [])"
      then have "transport c \<in> transport ` set cs - set (transport a # seen)"
        using set_unique_loop[of cs "transport a # seen"] by blast
      then have "transport a \<noteq> transport c" by auto
      with Cons.IH[OF in_rest] show ?thesis by simp
    qed
  qed
qed

lemma unique_loop_seen_cong:
  "(\<And>d. d \<in> set cs \<Longrightarrow> (transport d \<in> set seen) = (transport d \<in> set seen')) \<Longrightarrow>
   unique_loop cs seen [] = unique_loop cs seen' []"
proof (induction cs arbitrary: seen seen')
  case Nil
  then show ?case by simp
next
  case (Cons c cs)
  have mem: "(transport c \<in> set seen) = (transport c \<in> set seen')"
    by (rule Cons.prems) simp
  have a: "unique_loop cs seen [] = unique_loop cs seen' []"
    by (rule Cons.IH) (simp add: Cons.prems)
  have b: "unique_loop cs (transport c # seen) [] = unique_loop cs (transport c # seen') []"
    by (rule Cons.IH) (simp add: Cons.prems)
  show ?case
    using mem a b by (simp add: unique_loop_Cons del: unique_loop.simps(2))
qed

lemma unique_loop_filter_comm:
  "filter (\<lambda>c. Q (transport c)) (unique_loop cs seen []) =
     unique_loop (filter (\<lambda>c. Q (transport c)) cs) seen []"
proof (induction cs arbitrary: seen)
  case Nil
  then show ?case by simp
next
  case (Cons c cs)
  show ?case
  proof (cases "Q (transport c)")
    case True
    then show ?thesis using Cons.IH by (simp add: unique_loop_Cons del: unique_loop.simps(2))
  next
    case False
    have "unique_loop (filter (\<lambda>c. Q (transport c)) cs) (transport c # seen) [] =
          unique_loop (filter (\<lambda>c. Q (transport c)) cs) seen []"
      by (rule unique_loop_seen_cong) (use False in auto)
    then show ?thesis using False Cons.IH
      by (simp add: unique_loop_Cons del: unique_loop.simps(2))
  qed
qed

lemma priority_index_cases:
  "priority_index t =
     (if t = ''npx'' then 0 else if t = ''stdio'' then 1
      else if t = ''http'' then 2 else if t = ''docker'' then 3 else 4)"
  by (simp add: priority_index_def TRANSPORT_PRIORITY_def)

lemma distinct_map_sort_key:
  "distinct (map g (sort_key f xs)) = distinct (map g xs)"
proof -
  have "mset (map g (sort_key f xs)) = mset (map g xs)" by simp
  then show ?thesis by (rule mset_eq_imp_distinct_iff)
qed

text \<open>
  C6. For every record, \<^verbatim>\<open>get_spawn_configs\<close> is the priority sort of the deduplicated
  candidate list. For every candidate list \<open>cs\<close> (known and unknown kinds, in any
  order) the result \<open>rs\<close> of deduplicating and sorting holds each kind of \<open>cs\<close> exactly
  once, every entry of \<open>rs\<close> is the first configuration of its kind in \<open>cs\<close>, \<open>rs\<close> is
  ascending in the priority key (npx 0, stdio 1, http 2, docker 3, anything else 4, so
  unknown kinds follow all known ones), and the entries of equal key, the unknown kinds
  among them, stand in the order of their first occurrence in \<open>cs\<close>.
\<close>

theorem get_spawn_configs_dedupe_sorted:
  fixes cs :: "config list" and srv :: server
  defines "rs \<equiv> sort_configs (dedupe cs)"
  shows "get_spawn_configs srv = sort_configs (dedupe (candidate_configs srv))
    \<and> distinct (map transport rs)
    \<and> set (map transport rs) = set (map transport cs)
    \<and> (\<forall>c \<in> set rs. List.find (\<lambda>d. transport d = transport c) cs = Some c)
    \<and> sorted (map sort_key_of rs)
    \<and> (\<forall>c \<in> set rs. sort_key_of c =
          (if transport c = ''npx'' then 0 else if transport c = ''stdio'' then 1
           else if transport c = ''http'' then 2 else if transport c = ''docker'' then 3 else 4))
    \<and> (\<forall>k. filter (\<lambda>c. sort_key_of c = k) rs = dedupe (filter (\<lambda>c. sort_key_of c = k) cs))"
proof -
  have d: "distinct (map transport rs)"
    unfolding rs_def sort_configs_def dedupe_def
    by (simp add: distinct_map_sort_key distinct_unique_loop)
  have s: "set (map transport rs) = set (map transport cs)"
    unfolding rs_def sort_configs_def dedupe_def
    using set_unique_loop[of cs "[]"] by simp
  have f: "\<forall>c \<in> set rs. List.find (\<lambda>d. transport d = transport c) cs = Some c"
    unfolding rs_def sort_configs_def dedupe_def
    using find_unique_loop[of _ cs "[]"] by simp
  have o: "sorted (map sort_key_of rs)"
    unfolding rs_def sort_configs_def by (rule sorted_sort_key)
  have st: "filter (\<lambda>c. sort_key_of c = k) rs = dedupe (filter (\<lambda>c. sort_key_of c = k) cs)" for k
    unfolding rs_def sort_configs_def dedupe_def sort_key_of_def
    using unique_loop_filter_comm[of "\<lambda>t. priority_index t = k" cs "[]"]
    by (simp add: sort_key_stable)
  have g: "get_spawn_configs srv = sort_configs (dedupe (candidate_configs srv))"
    by (simp only: get_spawn_configs_def)
  have kc: "sort_key_of c =
          (if transport c = ''npx'' then 0 else if transport c = ''stdio'' then 1
           else if transport c = ''http'' then 2 else if transport c = ''docker'' then 3 else 4)" for c
    unfolding sort_key_of_def by (rule priority_index_cases)
  from kc have kc': "\<forall>c \<in> set rs. sort_key_of c =
          (if transport c = ''npx'' then 0 else if transport c = ''stdio'' then 1
           else if transport c = ''http'' then 2 else if transport c = ''docker'' then 3 else 4)"
    by (rule_tac ballI)
  from st have st': "\<forall>k. filter (\<lambda>c. sort_key_of c = k) rs = dedupe (filter (\<lambda>c. sort_key_of c = k) cs)"
    by (rule_tac allI)
  show ?thesis
    by (rule conjI[OF g conjI[OF d conjI[OF s conjI[OF f conjI[OF o conjI[OF kc' st']]]]]])
qed

theorem get_spawn_configs_dedupe_sorted_witness:
  "get_spawn_configs example_server =
     [\<lparr>transport = ''stdio'',
       params = [(''command'', PStr ''uvx''),
                 (''args'', PList [''--from'', ''acme/weather-mcp'', ''weather-mcp'']),
                 (''env'', PDict [])]\<rparr>,
      \<lparr>transport = ''http'',
       params = [(''remoteUrl'', PStr ''https://mcp.acme.dev/sse''),
                 (''protocol'', PStr ''streamable-http'')]\<rparr>,
      \<lparr>transport = ''docker'', params = [(''image'', PStr ''acme/weather:1'')]\<rparr>]
   \<and> sort_configs (dedupe example_candidates) =
       [\<lparr>transport = ''npx'', params = [(''package'', PStr ''a'')]\<rparr>,
        \<lparr>transport = ''http'', params = [(''remoteUrl'', PStr ''u1'')]\<rparr>,
        \<lparr>transport = ''docker'', params = [(''image'', PStr ''i'')]\<rparr>,
        \<lparr>transport = ''grpc'', params = []\<rparr>,
        \<lparr>transport = ''ws'', params = []\<rparr>]
   \<and> List.find (\<lambda>d. transport d = ''http'') example_candidates
       = Some \<lparr>transport = ''http'', params = [(''remoteUrl'', PStr ''u1'')]\<rparr>
   \<and> filter (\<lambda>c. sort_key_of c = 4) (sort_configs (dedupe example_candidates))
       = dedupe (filter (\<lambda>c. sort_key_of c = 4) example_candidates)"
proof -
  have a: "get_spawn_configs example_server =
     [\<lparr>transport = ''stdio'',
       params = [(''command'', PStr ''uvx''),
                 (''args'', PList [''--from'', ''acme/weather-mcp'', ''weather-mcp'']),
                 (''env'', PDict [])]\<rparr>,
      \<lparr>transport = ''http'',
       params = [(''remoteUrl'', PStr ''https://mcp.acme.dev/sse''),
                 (''protocol'', PStr ''streamable-http'')]\<rparr>,
      \<lparr>transport = ''docker'', params = [(''image'', PStr ''acme/weather:1'')]\<rparr>]"
    by code_simp
  have b: "sort_configs (dedupe example_candidates) =
       [\<lparr>transport = ''npx'', params = [(''package'', PStr ''a'')]\<rparr>,
        \<lparr>transport = ''http'', params = [(''remoteUrl'', PStr ''u1'')]\<rparr>,
        \<lparr>transport = ''docker'', params = [(''image'', PStr ''i'')]\<rparr>,
        \<lparr>transport = ''grpc'', params = []\<rparr>,
        \<lparr>transport = ''ws'', params = []\<rparr>]"
    by code_simp
  have c: "List.find (\<lambda>d. transport d = ''http'') example_candidates
       = Some \<lparr>transport = ''http'', params = [(''remoteUrl'', PStr ''u1'')]\<rparr>"
    by code_simp
  from get_spawn_configs_dedupe_sorted[of example_server example_candidates]
  have d: "filter (\<lambda>c. sort_key_of c = 4) (sort_configs (dedupe example_candidates))
       = dedupe (filter (\<lambda>c. sort_key_of c = 4) example_candidates)"
    by blast
  from a b c d show ?thesis by blast
qed

subsection \<open>The batch loop\<close>


subsection \<open>The results of a worker\<close>

lemma try_configs_shape:
  "(\<exists>e. try_configs env srv b cfgs tried le lc = Raised e) \<or>
   (\<exists>c. try_configs env srv b cfgs tried le lc = Returned (Some c) None True) \<or>
   (\<exists>f. try_configs env srv b cfgs tried le lc = Returned None (Some f) False \<and> \<not> fs_retryable f)"
proof (induction cfgs arbitrary: tried le lc)
  case Nil
  then show ?case by (simp add: failed_entry_def Let_def)
next
  case (Cons cfg cfgs)
  show ?case
    using Cons.IH
    by (simp add: Let_def split: option.split err_payload.split)
qed

lemma process_shape:
  "(\<exists>e. process_server_with_model env args = Raised e) \<or>
   (\<exists>c. process_server_with_model env args = Returned (Some c) None True) \<or>
   (\<exists>f. process_server_with_model env args = Returned None (Some f) False \<and> \<not> fs_retryable f)"
proof (cases args)
  case (fields srv model_idx backends)
  show ?thesis
  proof (cases "backends = []")
    case True
    then show ?thesis using fields by (simp add: process_server_with_model_def)
  next
    case False
    then show ?thesis
      using fields try_configs_shape[of env srv "backends ! (model_idx mod length backends)"
          "get_spawn_configs srv" "[]" "[]" "[]"]
      by (simp add: process_server_with_model_def)
  qed
qed

subsection \<open>Fields left alone by the bookkeeping\<close>

lemma count_fields [simp]:
  "compiled (count_processed l st) = compiled st" "failed (count_processed l st) = failed st"
  "disk (count_processed l st) = disk st" "servers (count_processed l st) = servers st"
  "compiled (count_success st) = compiled st" "failed (count_success st) = failed st"
  "disk (count_success st) = disk st" "servers (count_success st) = servers st"
  "compiled (count_failed st) = compiled st" "failed (count_failed st) = failed st"
  "disk (count_failed st) = disk st" "servers (count_failed st) = servers st"
  "compiled (count_retry st) = compiled st" "failed (count_retry st) = failed st"
  "disk (count_retry st) = disk st" "servers (count_retry st) = servers st"
  "compiled (tick st) = compiled st" "failed (tick st) = failed st"
  "disk (tick st) = disk st" "servers (tick st) = servers st" "progress (tick st) = progress st"
  by (simp_all add: count_processed_def count_success_def count_failed_def count_retry_def tick_def)

lemma save_fields [simp]:
  "compiled (save_progress env st) = compiled st" "failed (save_progress env st) = failed st"
  "servers (save_progress env st) = servers st"
  "compiled (save_compiled env st) = compiled st" "failed (save_compiled env st) = failed st"
  "servers (save_compiled env st) = servers st" "progress (save_compiled env st) = progress st"
  "compiled (save_failed env st) = compiled st" "failed (save_failed env st) = failed st"
  "servers (save_failed env st) = servers st" "progress (save_failed env st) = progress st"
  by (simp_all add: save_progress_def save_compiled_def save_failed_def Let_def)

lemma checkpoint_fields [simp]:
  "compiled (checkpoint env st) = compiled st" "failed (checkpoint env st) = failed st"
  "servers (checkpoint env st) = servers st"
  by (simp_all add: checkpoint_def)

lemma store_compiled_fields [simp]:
  "failed (store_compiled i c b st) = failed st" "disk (store_compiled i c b st) = disk st"
  "servers (store_compiled i c b st) = servers st"
  "compiled (store_compiled i c b st) =
     (case c of None \<Rightarrow> compiled st | Some e \<Rightarrow> AList.update i e (compiled st))"
  by (simp_all add: store_compiled_def Let_def split: option.split)

lemma store_failed_fields [simp]:
  "compiled (store_failed i f st) = compiled st" "disk (store_failed i f st) = disk st"
  "servers (store_failed i f st) = servers st"
  "failed (store_failed i f st) =
     (case f of None \<Rightarrow> failed st | Some e \<Rightarrow> AList.update i e (failed st))"
  by (simp_all add: store_failed_def split: option.split)

lemma phase1_step_maps:
  "compiled (snd (phase1_step env (cc, st) (srv, res))) =
     (case res of Returned (Some e) f b \<Rightarrow> AList.update (registryId srv) e (compiled st)
      | _ \<Rightarrow> compiled st)"
  "failed (snd (phase1_step env (cc, st) (srv, res))) =
     (case res of Returned c (Some e) b \<Rightarrow> AList.update (registryId srv) e (failed st)
      | _ \<Rightarrow> failed st)"
  "servers (snd (phase1_step env (cc, st) (srv, res))) = servers st"
  by (simp_all add: phase1_step_def Let_def split: future_result.split option.split)

lemma phase1_loop_snoc:
  "phase1_loop env (xs @ [x]) acc = phase1_step env (phase1_loop env xs acc) x"
  by (simp add: phase1_loop_def)

lemma phase1_loop_Nil [simp]: "phase1_loop env [] acc = acc"
  by (simp add: phase1_loop_def)

lemma stored_snoc:
  "stored_compiled (xs @ [(srv, res)]) =
     stored_compiled xs \<union> (case res of Returned (Some c) f b \<Rightarrow> {registryId srv} | _ \<Rightarrow> {})"
  "stored_failed (xs @ [(srv, res)]) =
     stored_failed xs \<union> (case res of Returned c (Some f) b \<Rightarrow> {registryId srv} | _ \<Rightarrow> {})"
  by (auto simp: stored_compiled_def stored_failed_def split: future_result.split option.split)

lemma phase1_loop_ids:
  "compiled_ids (snd (phase1_loop env xs acc)) = compiled_ids (snd acc) \<union> stored_compiled xs
   \<and> failed_ids (snd (phase1_loop env xs acc)) = failed_ids (snd acc) \<union> stored_failed xs
   \<and> servers (snd (phase1_loop env xs acc)) = servers (snd acc)"
proof (induction xs rule: rev_induct)
  case Nil
  then show ?case by (simp add: stored_compiled_def stored_failed_def)
next
  case (snoc x xs)
  obtain srv res where x: "x = (srv, res)" by (cases x)
  obtain cc st where l: "phase1_loop env xs acc = (cc, st)" by (cases "phase1_loop env xs acc")
  show ?case
    using snoc.IH
    unfolding phase1_loop_snoc x l stored_snoc compiled_ids_def failed_ids_def
    by (simp add: phase1_step_maps dom_update split: future_result.split option.split)
qed


subsection \<open>Completion order\<close>

lemma mset_as_completed: "mset (as_completed env xs) = mset xs"
proof -
  have "mset (map snd (sort_key (\<lambda>p. completion_time env (fst p)) (enumerate 0 xs)))
        = image_mset snd (mset (sort_key (\<lambda>p. completion_time env (fst p)) (enumerate 0 xs)))"
    by (simp only: mset_map)
  also have "\<dots> = image_mset snd (mset (enumerate 0 xs))"
    by (simp only: mset_sort)
  also have "\<dots> = mset (map snd (enumerate 0 xs))"
    by (simp only: mset_map)
  also have "\<dots> = mset xs"
    by (simp only: map_snd_enumerate)
  finally show ?thesis by (simp only: as_completed_def)
qed

lemma set_as_completed: "set (as_completed env xs) = set xs"
  using mset_as_completed[of env xs] by (rule mset_eq_setD)

lemma map_fst_process_args: "map fst (process_args ss) = ss"
proof -
  have "fst \<circ> (\<lambda>(idx, srv). (srv, idx mod length BACKENDS, BACKENDS)) = (snd :: nat \<times> server \<Rightarrow> server)"
    by (auto simp: fun_eq_iff)
  then have "map fst (process_args ss) = map snd (enumerate 0 ss)"
    by (simp add: process_args_def Let_def)
  then show ?thesis by (simp only: map_snd_enumerate)
qed

lemma mset_completions_ids:
  "mset (map (\<lambda>p. registryId (fst p)) (completions env (process_args ss))) = mset (map registryId ss)"
proof -
  have "mset (map (\<lambda>p. registryId (fst p)) (completions env (process_args ss)))
        = image_mset (\<lambda>p. registryId (fst p)) (mset (completions env (process_args ss)))"
    by simp
  also have "\<dots> = image_mset (\<lambda>p. registryId (fst p))
        (mset (map (\<lambda>arg. (fst arg, process_server_with_model env arg)) (process_args ss)))"
    by (simp only: completions_def mset_as_completed)
  also have "\<dots> = mset (map registryId (map fst (process_args ss)))"
    by (simp add: multiset.map_comp comp_def)
  finally show ?thesis by (simp only: map_fst_process_args)
qed

lemma distinct_completions:
  "distinct (map registryId ss) \<Longrightarrow>
   distinct (map (\<lambda>p. registryId (fst p)) (completions env (process_args ss)))"
  using mset_completions_ids[of env ss] by (metis mset_eq_imp_distinct_iff)

lemma set_completions_ids:
  "(\<lambda>p. registryId (fst p)) ` set (completions env (process_args ss)) = registryId ` set ss"
  using mset_completions_ids[of env ss] by (metis mset_eq_setD set_map)

lemma completions_shape:
  assumes "(srv, res) \<in> set (completions env args)"
  shows "(\<exists>e. res = Raised e) \<or> (\<exists>c. res = Returned (Some c) None True) \<or>
         (\<exists>f. res = Returned None (Some f) False \<and> \<not> fs_retryable f)"
proof -
  from assms obtain arg where "res = process_server_with_model env arg"
    by (auto simp: completions_def set_as_completed)
  then show ?thesis using process_shape[of env arg] by simp
qed

subsection \<open>The records of a batch\<close>

lemma distinct_apply_limit:
  "distinct (map f xs) \<Longrightarrow> distinct (map f (apply_limit limit xs))"
  by (simp add: apply_limit_def py_slice_to_def take_map[symmetric] split: option.split)

lemma set_apply_limit: "set (apply_limit limit xs) \<subseteq> set xs"
  by (auto simp: apply_limit_def py_slice_to_def split: option.split dest: in_set_takeD)

lemma servers_to_process_props:
  "set (servers_to_process limit resume st) \<subseteq> set (servers st)"
  "s \<in> set (servers_to_process limit resume st) \<Longrightarrow> registryId s \<notin> compiled_ids st"
  "distinct (map registryId (servers st)) \<Longrightarrow>
     distinct (map registryId (servers_to_process limit resume st))"
proof -
  let ?resumed = "(if resume \<and> pr_last_processed_id (progress st) \<noteq> []
             then drop
                    ((case find_index (\<lambda>s. registryId s = pr_last_processed_id (progress st))
                             (servers st) of
                        Some i \<Rightarrow> i | None \<Rightarrow> 0) + 1)
                    (servers st)
             else servers st)"
  have eq: "servers_to_process limit resume st =
      filter (\<lambda>s. \<not> dict_has (registryId s) (compiled st)) (apply_limit limit ?resumed)"
    by (simp add: servers_to_process_def Let_def)
  have sub: "set ?resumed \<subseteq> set (servers st)"
    by (auto dest: in_set_dropD)
  show "set (servers_to_process limit resume st) \<subseteq> set (servers st)"
    using sub set_apply_limit[of limit ?resumed] unfolding eq by auto
  show "s \<in> set (servers_to_process limit resume st) \<Longrightarrow> registryId s \<notin> compiled_ids st"
    unfolding eq by (simp add: dict_has_def compiled_ids_def)
  assume d: "distinct (map registryId (servers st))"
  then have "distinct (map registryId ?resumed)"
    by (simp add: drop_map[symmetric])
  then have "distinct (map registryId (apply_limit limit ?resumed))"
    by (rule distinct_apply_limit)
  then show "distinct (map registryId (servers_to_process limit resume st))"
    unfolding eq by (rule distinct_map_filter)
qed


subsection \<open>Failed entries are not retryable\<close>

lemma set_update_subset: "set (AList.update k v al) \<subseteq> insert (k, v) (set al)"
  by (induction al) auto

lemma phase1_loop_nonretryable:
  assumes "\<forall>p \<in> set (failed (snd acc)). \<not> fs_retryable (snd p)"
    and "\<forall>p \<in> set xs. \<forall>c f b. snd p = Returned c (Some f) b \<longrightarrow> \<not> fs_retryable f"
  shows "\<forall>p \<in> set (failed (snd (phase1_loop env xs acc))). \<not> fs_retryable (snd p)"
  using assms(2)
proof (induction xs rule: rev_induct)
  case Nil
  then show ?case using assms(1) by simp
next
  case (snoc x xs)
  obtain srv res where x: "x = (srv, res)" by (cases x)
  obtain cc st where l: "phase1_loop env xs acc = (cc, st)" by (cases "phase1_loop env xs acc")
  from snoc have ih: "\<forall>p \<in> set (failed st). \<not> fs_retryable (snd p)"
    using l by simp
  from snoc.prems x have new: "\<And>c f b. res = Returned c (Some f) b \<Longrightarrow> \<not> fs_retryable f"
    by simp
  show ?case
  proof (cases res)
    case (Raised e)
    then show ?thesis using ih unfolding phase1_loop_snoc x l by (simp add: phase1_step_maps)
  next
    case (Returned c f b)
    show ?thesis
    proof (cases f)
      case None
      then show ?thesis using ih Returned unfolding phase1_loop_snoc x l
        by (simp add: phase1_step_maps)
    next
      case (Some e)
      with new Returned have "\<not> fs_retryable e" by simp
      then show ?thesis
        using ih Returned Some set_update_subset[of "registryId srv" e "failed st"]
        unfolding phase1_loop_snoc x l
        by (auto simp: phase1_step_maps)
    qed
  qed
qed

lemma apply_limit_Nil [simp]: "apply_limit limit [] = []"
  by (simp add: apply_limit_def py_slice_to_def split: option.split)

lemma not_retryable_failed:
  assumes "\<forall>p \<in> set (failed st). \<not> fs_retryable (snd p)"
  shows "\<not> retryable_failed st s"
proof (cases "map_of (failed st) (registryId s)")
  case None
  then show ?thesis by (simp add: retryable_failed_def)
next
  case (Some e)
  then have "(registryId s, e) \<in> set (failed st)" by (rule map_of_SomeD)
  with assms have "\<not> fs_retryable e" by fastforce
  with Some show ?thesis by (simp add: retryable_failed_def)
qed

lemma servers_to_retry_Nil:
  assumes "\<forall>p \<in> set (failed st). \<not> fs_retryable (snd p)"
  shows "servers_to_retry limit st = []"
proof -
  have "\<forall>s \<in> set (servers st). \<not> retryable_failed st s"
    using not_retryable_failed[OF assms] by (rule_tac ballI)
  then have "filter (retryable_failed st) (servers st) = []"
    by (simp only: filter_empty_conv)
  then show ?thesis by (simp only: servers_to_retry_def apply_limit_Nil)
qed

lemma servers_to_retry_retryable:
  assumes "s \<in> set (servers_to_retry limit st)"
  shows "\<exists>f. map_of (failed st) (registryId s) = Some f \<and> fs_retryable f"
proof -
  from assms have "s \<in> set (apply_limit limit (filter (retryable_failed st) (servers st)))"
    by (simp only: servers_to_retry_def)
  with set_apply_limit[of limit "filter (retryable_failed st) (servers st)"]
  have "s \<in> set (filter (retryable_failed st) (servers st))"
    by (rule subsetD)
  then have r: "retryable_failed st s" by simp
  show ?thesis
  proof (cases "map_of (failed st) (registryId s)")
    case None
    with r show ?thesis by (simp add: retryable_failed_def)
  next
    case (Some e)
    with r have "fs_retryable e" by (simp add: retryable_failed_def)
    with Some show ?thesis by blast
  qed
qed

lemma prepare_fields [simp]:
  "compiled (resume_progress r st) = compiled st" "failed (resume_progress r st) = failed st"
  "servers (resume_progress r st) = servers st" "disk (resume_progress r st) = disk st"
  "compiled (start_progress env st) = compiled st" "failed (start_progress env st) = failed st"
  "servers (start_progress env st) = servers st" "disk (start_progress env st) = disk st"
  by (simp_all add: resume_progress_def start_progress_def Let_def split: option.split)

lemma as_completed_Nil [simp]: "as_completed env [] = []"
  by (simp add: as_completed_def)

lemma completions_Nil [simp]: "completions env (phase1_args w []) = []"
  by (simp add: completions_def phase1_args_def process_args_def)

lemma run_phase1_maps:
  fixes env limit resume workers st
  defines "fin \<equiv> snd (phase1_loop env
      (completions env (phase1_args workers (servers_to_process limit resume (resume_progress resume st))))
      (0, start_progress env (resume_progress resume st)))"
  shows "compiled (run_phase1 env limit resume workers st) = compiled fin"
    and "failed (run_phase1 env limit resume workers st) = failed fin"
    and "servers (run_phase1 env limit resume workers st) = servers fin"
  unfolding fin_def by (simp_all add: run_phase1_def Let_def)

lemma init_fields [simp]:
  "failed (load_servers (MCPCompiler_init fs)) = []"
  "compiled (load_servers (MCPCompiler_init fs)) = load_compiled fs"
  "servers (load_servers (MCPCompiler_init fs)) = filter (\<lambda>s. s_origin s = ''mcp'') (registryRefined_json fs)"
  by (simp_all add: load_servers_def MCPCompiler_init_def)

lemma run_phase1_nonretryable:
  assumes "\<forall>p \<in> set (failed st). \<not> fs_retryable (snd p)"
  shows "\<forall>p \<in> set (failed (run_phase1 env limit resume workers st)). \<not> fs_retryable (snd p)"
proof -
  let ?done = "completions env (phase1_args workers (servers_to_process limit resume (resume_progress resume st)))"
  have sh: "\<forall>p \<in> set ?done. \<forall>c f b. snd p = Returned c (Some f) b \<longrightarrow> \<not> fs_retryable f"
  proof (intro ballI allI impI)
    fix p c f b
    assume p: "p \<in> set ?done" and r: "snd p = Returned c (Some f) b"
    from p have "(fst p, snd p) \<in> set ?done" by simp
    from completions_shape[OF this] r show "\<not> fs_retryable f" by auto
  qed
  have "\<forall>p \<in> set (failed (snd (0::nat, start_progress env (resume_progress resume st)))). \<not> fs_retryable (snd p)"
    using assms by simp
  from phase1_loop_nonretryable[OF this sh] show ?thesis
    by (simp only: run_phase1_maps)
qed

text \<open>
  C10. Every failed entry a worker produces carries \<open>retryable = False\<close>; the retry
  pass selects only records whose failed entry is retryable. So after the initial pass of
  a freshly constructed compiler (any files, any limit, resume flag and environment) the
  list of records to retry is empty for every limit, the retry pass returns the compiler
  unchanged, and the full run is the initial pass alone.
\<close>

lemma run_phase2_nothing_retryable:
  assumes "\<forall>p \<in> set (failed st). \<not> fs_retryable (snd p)"
  shows "run_phase2 env rlimit st = st"
  using servers_to_retry_Nil[OF assms, of rlimit] by (simp add: run_phase2_def)

lemma run_all_is_phase1:
  "run_all env limit resume workers (load_servers (MCPCompiler_init fs))
     = run_phase1 env limit resume workers (load_servers (MCPCompiler_init fs))"
proof -
  have "\<forall>p \<in> set (failed (run_phase1 env limit resume workers (load_servers (MCPCompiler_init fs)))).
          \<not> fs_retryable (snd p)"
    by (rule run_phase1_nonretryable) simp
  then show ?thesis
    by (simp only: run_all_def run_phase2_nothing_retryable)
qed

subsection \<open>Evaluation of the example environment\<close>

lemma example_detect:
  "detect_required_vars ''boom'' = []"
  "detect_required_vars ''requires credentials: API_KEY.'' = [(''API_KEY'', ''Required: API_KEY'')]"
  by code_simp+

lemma example_record_configs:
  "get_spawn_configs (example_record i) =
     [\<lparr>transport = ''docker'', params = [(''image'', PStr ''img'')]\<rparr>]"
  by (simp add: get_spawn_configs_def candidate_configs_def example_record_def image_configs_def
      remote_url_configs_def py_or_def truthy_def dedupe_def sort_configs_def)

lemma example_record_fields [simp]:
  "registryId (example_record i) = i" "s_origin (example_record i) = ''mcp''"
  by (simp_all add: example_record_def)

lemma example_process_b:
  "process_server_with_model example_env (example_record ''b'', k, BACKENDS) = Raised TypeError"
  by (simp add: process_server_with_model_def example_record_configs BACKENDS_def
      example_env_def example_detect Let_def spawn_success_def spawn_error_def
      spawn_error_code_def spawn_tools_def)

lemma example_process_d:
  "process_server_with_model example_env (example_record ''d'', k, BACKENDS) =
     Returned None
       (Some (failed_entry example_env (example_record ''d'') (BACKENDS ! (k mod 3))
                [''docker''] ''boom'' ''E''))
       False"
  by (simp add: process_server_with_model_def example_record_configs BACKENDS_def
      example_env_def example_detect Let_def spawn_success_def spawn_error_def
      spawn_error_code_def spawn_tools_def)

text \<open>
  C10. Every failed entry a worker produces carries \<open>retryable = False\<close>; the retry
  pass selects only records whose failed entry is retryable. So after the initial pass of
  a freshly constructed compiler (any files, any limit, resume flag and environment) the
  list of records to retry is empty for every limit, the retry pass returns the compiler
  unchanged, and the full run is the initial pass alone.
\<close>

theorem retry_pass_never_retries:
  fixes env :: environment and fs :: files and limit :: "int option" and resume :: bool
    and workers :: nat
  defines "st1 \<equiv> run_phase1 env limit resume workers (load_servers (MCPCompiler_init fs))"
  shows "(\<forall>args c f b. process_server_with_model env args = Returned c (Some f) b
            \<longrightarrow> \<not> fs_retryable f)
    \<and> (\<forall>st rlimit s. s \<in> set (servers_to_retry rlimit st)
            \<longrightarrow> (\<exists>f. map_of (failed st) (registryId s) = Some f \<and> fs_retryable f))
    \<and> (\<forall>rlimit. servers_to_retry rlimit st1 = [])
    \<and> (\<forall>rlimit. run_phase2 env rlimit st1 = st1)
    \<and> run_all env limit resume workers (load_servers (MCPCompiler_init fs)) = st1"
proof -
  have a: "\<forall>args c f b. process_server_with_model env args = Returned c (Some f) b
            \<longrightarrow> \<not> fs_retryable f"
  proof (intro allI impI)
    fix args c f b
    assume h: "process_server_with_model env args = Returned c (Some f) b"
    from process_shape[of env args] h show "\<not> fs_retryable f" by auto
  qed
  have b: "\<forall>st rlimit s. s \<in> set (servers_to_retry rlimit st)
            \<longrightarrow> (\<exists>f. map_of (failed st) (registryId s) = Some f \<and> fs_retryable f)"
    using servers_to_retry_retryable by blast
  have nr: "\<forall>p \<in> set (failed st1). \<not> fs_retryable (snd p)"
    unfolding st1_def by (rule run_phase1_nonretryable) simp
  have c: "\<forall>rlimit. servers_to_retry rlimit st1 = []"
    using servers_to_retry_Nil[OF nr] by simp
  have d: "\<forall>rlimit. run_phase2 env rlimit st1 = st1"
    using run_phase2_nothing_retryable[OF nr] by simp
  have e: "run_all env limit resume workers (load_servers (MCPCompiler_init fs)) = st1"
    unfolding st1_def by (rule run_all_is_phase1)
  from a b c d e show ?thesis by blast
qed

theorem retry_pass_never_retries_witness:
  "process_server_with_model example_env (example_record ''d'', 0, BACKENDS) =
     Returned None
       (Some (failed_entry example_env (example_record ''d'') (BACKENDS ! (0 mod 3))
                [''docker''] ''boom'' ''E''))
       False
   \<and> \<not> fs_retryable (failed_entry example_env (example_record ''d'') (BACKENDS ! (0 mod 3))
                [''docker''] ''boom'' ''E'')
   \<and> example_record ''d'' \<in> set (servers_to_retry None
         ((load_servers (MCPCompiler_init example_disk))\<lparr>failed := [(''d'', example_failed)]\<rparr>))
   \<and> map_of (failed ((load_servers (MCPCompiler_init example_disk))\<lparr>failed := [(''d'', example_failed)]\<rparr>))
         (registryId (example_record ''d'')) = Some example_failed
   \<and> fs_retryable example_failed
   \<and> servers_to_retry None
         (run_phase1 example_env None False 3 (load_servers (MCPCompiler_init example_disk))) = []
   \<and> run_all example_env None False 3 (load_servers (MCPCompiler_init example_disk))
       = run_phase1 example_env None False 3 (load_servers (MCPCompiler_init example_disk))"
proof -
  note t = retry_pass_never_retries[of example_env None False 3 example_disk]
  note a = example_process_d[of 0]
  from t a have a': "\<not> fs_retryable (failed_entry example_env (example_record ''d'')
      (BACKENDS ! (0 mod 3)) [''docker''] ''boom'' ''E'')"
    by blast
  have b: "example_record ''d'' \<in> set (servers_to_retry None
         ((load_servers (MCPCompiler_init example_disk))\<lparr>failed := [(''d'', example_failed)]\<rparr>))"
    by (simp add: servers_to_retry_def retryable_failed_def load_servers_def
        MCPCompiler_init_def example_disk_def apply_limit_def example_failed_def)
  have c: "map_of (failed ((load_servers (MCPCompiler_init example_disk))\<lparr>failed := [(''d'', example_failed)]\<rparr>))
         (registryId (example_record ''d'')) = Some example_failed"
    by simp
  have d: "fs_retryable example_failed"
    by (simp add: example_failed_def)
  from t have f: "servers_to_retry None
         (run_phase1 example_env None False 3 (load_servers (MCPCompiler_init example_disk))) = []"
    by blast
  from t have g: "run_all example_env None False 3 (load_servers (MCPCompiler_init example_disk))
       = run_phase1 example_env None False 3 (load_servers (MCPCompiler_init example_disk))"
    by blast
  from a a' b c d f g show ?thesis by blast
qed

subsection \<open>Exactly one map, or none\<close>

lemma process_one_outcome: "one_outcome (process_server_with_model env args)"
  using process_shape[of env args] by (auto simp: one_outcome_def)

lemma completions_one_outcome:
  "p \<in> set (completions env args) \<Longrightarrow> one_outcome (snd p)"
  by (auto simp: completions_def set_as_completed process_one_outcome)

lemma same_id_same_completion:
  assumes "distinct (map (\<lambda>p. registryId (fst p)) xs)" "p \<in> set xs" "q \<in> set xs"
    "registryId (fst p) = registryId (fst q)"
  shows "p = q"
proof -
  from assms(1) have "inj_on (\<lambda>p. registryId (fst p)) (set xs)"
    by (simp add: distinct_map)
  with assms(2-4) show ?thesis by (rule_tac inj_onD)
qed

lemma stored_compiled_iff:
  assumes "distinct (map (\<lambda>p. registryId (fst p)) xs)" "p \<in> set xs"
  shows "registryId (fst p) \<in> stored_compiled xs \<longleftrightarrow> (\<exists>c f b. snd p = Returned (Some c) f b)"
proof
  assume "registryId (fst p) \<in> stored_compiled xs"
  then obtain srv c f b where q: "(srv, Returned (Some c) f b) \<in> set xs"
    and i: "registryId (fst p) = registryId srv"
    by (auto simp: stored_compiled_def)
  from i have "registryId (fst p) = registryId (fst (srv, Returned (Some c) f b))" by simp
  from same_id_same_completion[OF assms(1) assms(2) q this]
  show "\<exists>c f b. snd p = Returned (Some c) f b" by auto
next
  assume "\<exists>c f b. snd p = Returned (Some c) f b"
  then obtain c f b where "snd p = Returned (Some c) f b" by blast
  with assms(2) have "(fst p, Returned (Some c) f b) \<in> set xs" by (metis prod.collapse)
  then show "registryId (fst p) \<in> stored_compiled xs"
    unfolding stored_compiled_def by blast
qed

lemma stored_failed_iff:
  assumes "distinct (map (\<lambda>p. registryId (fst p)) xs)" "p \<in> set xs"
  shows "registryId (fst p) \<in> stored_failed xs \<longleftrightarrow> (\<exists>c f b. snd p = Returned c (Some f) b)"
proof
  assume "registryId (fst p) \<in> stored_failed xs"
  then obtain srv c f b where q: "(srv, Returned c (Some f) b) \<in> set xs"
    and i: "registryId (fst p) = registryId srv"
    by (auto simp: stored_failed_def)
  from i have "registryId (fst p) = registryId (fst (srv, Returned c (Some f) b))" by simp
  from same_id_same_completion[OF assms(1) assms(2) q this]
  show "\<exists>c f b. snd p = Returned c (Some f) b" by auto
next
  assume "\<exists>c f b. snd p = Returned c (Some f) b"
  then obtain c f b where "snd p = Returned c (Some f) b" by blast
  with assms(2) have "(fst p, Returned c (Some f) b) \<in> set xs" by (metis prod.collapse)
  then show "registryId (fst p) \<in> stored_failed xs"
    unfolding stored_failed_def by blast
qed

lemma stored_subset_ids:
  "stored_compiled xs \<subseteq> (\<lambda>p. registryId (fst p)) ` set xs"
  "stored_failed xs \<subseteq> (\<lambda>p. registryId (fst p)) ` set xs"
  by (force simp: stored_compiled_def stored_failed_def)+

lemma phase1_loop_placed:
  assumes dist: "distinct (map (\<lambda>p. registryId (fst p)) xs)"
    and fresh: "\<forall>p \<in> set xs. registryId (fst p) \<notin> compiled_ids st \<and> registryId (fst p) \<notin> failed_ids st"
    and shape: "\<forall>p \<in> set xs. one_outcome (snd p)"
    and disj: "compiled_ids st \<inter> failed_ids st = {}"
  shows "compiled_ids (snd (phase1_loop env xs (cc, st))) \<inter>
           failed_ids (snd (phase1_loop env xs (cc, st))) = {}"
    and "\<forall>p \<in> set xs. placed (snd (phase1_loop env xs (cc, st))) p"
proof -
  let ?st = "snd (phase1_loop env xs (cc, st))"
  have c: "compiled_ids ?st = compiled_ids st \<union> stored_compiled xs"
    and f: "failed_ids ?st = failed_ids st \<union> stored_failed xs"
    using phase1_loop_ids[of env xs "(cc, st)"] by simp_all
  have both: "stored_compiled xs \<inter> stored_failed xs = {}"
  proof (rule ccontr)
    assume "stored_compiled xs \<inter> stored_failed xs \<noteq> {}"
    then obtain i where ic: "i \<in> stored_compiled xs" and "i \<in> stored_failed xs" by blast
    with stored_subset_ids(1)[of xs] obtain p where p: "p \<in> set xs" and pi: "registryId (fst p) = i"
      by blast
    from ic pi stored_compiled_iff[OF dist p] obtain c f b where r: "snd p = Returned (Some c) f b"
      by blast
    from \<open>i \<in> stored_failed xs\<close> pi stored_failed_iff[OF dist p]
    obtain c' f' b' where r': "snd p = Returned c' (Some f') b'" by blast
    from shape p have "one_outcome (snd p)" by blast
    with r r' show False by (simp add: one_outcome_def)
  qed
  from fresh stored_subset_ids[of xs]
  have x1: "compiled_ids st \<inter> stored_failed xs = {}" and x2: "failed_ids st \<inter> stored_compiled xs = {}"
    by blast+
  from disj both x1 x2 show "compiled_ids ?st \<inter> failed_ids ?st = {}"
    unfolding c f by blast
  show "\<forall>p \<in> set xs. placed ?st p"
  proof
    fix p assume p: "p \<in> set xs"
    from fresh p have fr: "registryId (fst p) \<notin> compiled_ids st" "registryId (fst p) \<notin> failed_ids st"
      by blast+
    from shape p have so: "one_outcome (snd p)" by blast
    show "placed ?st p"
    proof (cases "snd p")
      case (Raised e)
      then show ?thesis
        using fr stored_compiled_iff[OF dist p] stored_failed_iff[OF dist p]
        unfolding placed_def c f by simp
    next
      case (Returned c' f' b')
      then show ?thesis
        using fr so stored_compiled_iff[OF dist p] stored_failed_iff[OF dist p]
        unfolding placed_def c f one_outcome_def by (cases c'; cases f') simp_all
    qed
  qed
qed


lemma processed_fields [simp]:
  "pr_processed (progress (count_processed l st)) = pr_processed (progress st) + 1"
  "pr_processed (progress (count_success st)) = pr_processed (progress st)"
  "pr_processed (progress (count_failed st)) = pr_processed (progress st)"
  "pr_processed (progress (count_retry st)) = pr_processed (progress st)"
  "pr_processed (progress (save_progress env st)) = pr_processed (progress st)"
  "pr_processed (progress (start_progress env st)) = pr_processed (progress st)"
  by (simp_all add: count_processed_def count_success_def count_failed_def count_retry_def
      save_progress_def start_progress_def tick_def Let_def)

lemma processed_store [simp]:
  "pr_processed (progress (store_compiled i c b st)) = pr_processed (progress st)"
  "pr_processed (progress (store_failed i f st)) = pr_processed (progress st)"
  by (simp_all add: store_compiled_def store_failed_def Let_def split: option.split)

lemma processed_checkpoint [simp]:
  "pr_processed (progress (checkpoint env st)) = pr_processed (progress st)"
  by (simp add: checkpoint_def)

lemma phase1_step_processed:
  "pr_processed (progress (snd (phase1_step env (cc, st) x))) = pr_processed (progress st) + 1"
  by (cases x) (simp add: phase1_step_def Let_def split: future_result.split)

lemma phase1_loop_processed:
  "pr_processed (progress (snd (phase1_loop env xs acc)))
     = pr_processed (progress (snd acc)) + int (length xs)"
proof (induction xs rule: rev_induct)
  case Nil
  then show ?case by simp
next
  case (snoc x xs)
  obtain cc st where l: "phase1_loop env xs acc = (cc, st)" by (cases "phase1_loop env xs acc")
  with snoc show ?case
    by (simp add: phase1_loop_snoc phase1_step_processed)
qed

lemma checkpoint_documents:
  "map_option cd_servers (mcpCompiled_json (disk (checkpoint env st))) = Some (dict_values (compiled st))"
  "map_option fd_servers (failedServers_json (disk (checkpoint env st))) = Some (dict_values (failed st))"
  by (simp_all add: checkpoint_def save_progress_def save_compiled_def save_failed_def
      tick_def Let_def)

lemma distinct_map_take: "distinct (map f xs) \<Longrightarrow> distinct (map f (take n xs))"
  by (simp add: take_map[symmetric])

lemma batch_facts:
  fixes env :: environment and fs :: files and limit :: "int option" and resume :: bool
    and workers :: nat
  defines "st0 \<equiv> resume_progress resume (load_servers (MCPCompiler_init fs))"
  defines "finished \<equiv> completions env (phase1_args workers (servers_to_process limit resume st0))"
  assumes d: "distinct (map registryId (registryRefined_json fs))"
  shows "distinct (map (\<lambda>p. registryId (fst p)) finished)"
    and "\<forall>p \<in> set finished. registryId (fst p) \<notin> compiled_ids (start_progress env st0)
           \<and> registryId (fst p) \<notin> failed_ids (start_progress env st0)"
    and "\<forall>p \<in> set finished. one_outcome (snd p)"
    and "compiled_ids (start_progress env st0) \<inter> failed_ids (start_progress env st0) = {}"
proof -
  have sv: "distinct (map registryId (servers st0))"
    unfolding st0_def using d by (simp add: distinct_map_filter)
  let ?L = "servers_to_process limit resume st0"
  from sv have dl: "distinct (map registryId ?L)"
    by (rule servers_to_process_props(3))
  then show "distinct (map (\<lambda>p. registryId (fst p)) finished)"
    unfolding finished_def phase1_args_def by (rule distinct_completions)
  have ids: "(\<lambda>p. registryId (fst p)) ` set finished = registryId ` set ?L"
    unfolding finished_def phase1_args_def by (rule set_completions_ids)
  have f0: "failed_ids (start_progress env st0) = {}"
    unfolding st0_def by (simp add: failed_ids_def)
  have c0: "compiled_ids (start_progress env st0) = compiled_ids st0"
    by (simp add: compiled_ids_def)
  show "\<forall>p \<in> set finished. registryId (fst p) \<notin> compiled_ids (start_progress env st0)
           \<and> registryId (fst p) \<notin> failed_ids (start_progress env st0)"
  proof
    fix p assume "p \<in> set finished"
    with ids obtain s where "s \<in> set ?L" "registryId (fst p) = registryId s" by blast
    with servers_to_process_props(2)[of s limit resume st0] f0 c0
    show "registryId (fst p) \<notin> compiled_ids (start_progress env st0)
           \<and> registryId (fst p) \<notin> failed_ids (start_progress env st0)"
      by simp
  qed
  show "\<forall>p \<in> set finished. one_outcome (snd p)"
    unfolding finished_def using completions_one_outcome by blast
  show "compiled_ids (start_progress env st0) \<inter> failed_ids (start_progress env st0) = {}"
    using f0 by simp
qed

text \<open>
  C1 (amended). Let the registry hold each id once. At every observation point of the
  initial pass, after the first \<open>n\<close> completions for any \<open>n\<close>, no id is in both the
  compiled and the failed map; every completed record is counted as processed; the id of
  a completed record is in exactly one of the two maps when its worker returned a result
  and in neither when its worker raised an exception; and a flush at that point writes
  exactly the entries of the two maps. The same holds at the end of the full run, the retry
  pass included.
\<close>

theorem compiled_failed_never_both:
  fixes env :: environment and fs :: files and limit :: "int option" and resume :: bool
    and workers :: nat and n :: nat
  defines "st0 \<equiv> resume_progress resume (load_servers (MCPCompiler_init fs))"
  defines "finished \<equiv> completions env (phase1_args workers (servers_to_process limit resume st0))"
  defines "obs \<equiv> snd (phase1_loop env (take n finished) (0, start_progress env st0))"
  defines "fin \<equiv> run_all env limit resume workers (load_servers (MCPCompiler_init fs))"
  assumes d: "distinct (map registryId (registryRefined_json fs))"
  shows "compiled_ids obs \<inter> failed_ids obs = {}
    \<and> (\<forall>p \<in> set (take n finished). placed obs p)
    \<and> pr_processed (progress obs) = pr_processed (progress st0) + int (length (take n finished))
    \<and> map_option cd_servers (mcpCompiled_json (disk (checkpoint env obs)))
        = Some (dict_values (compiled obs))
    \<and> map_option fd_servers (failedServers_json (disk (checkpoint env obs)))
        = Some (dict_values (failed obs))
    \<and> compiled_ids fin \<inter> failed_ids fin = {}
    \<and> (\<forall>p \<in> set finished. placed fin p)"
proof -
  have bf: "distinct (map (\<lambda>p. registryId (fst p)) finished)"
    "\<forall>p \<in> set finished. registryId (fst p) \<notin> compiled_ids (start_progress env st0)
           \<and> registryId (fst p) \<notin> failed_ids (start_progress env st0)"
    "\<forall>p \<in> set finished. one_outcome (snd p)"
    "compiled_ids (start_progress env st0) \<inter> failed_ids (start_progress env st0) = {}"
    unfolding finished_def st0_def
    by (rule batch_facts(1)[OF d], rule batch_facts(2)[OF d], rule batch_facts(3)[OF d],
        rule batch_facts(4)[OF d])
  have td: "distinct (map (\<lambda>p. registryId (fst p)) (take n finished))"
    using bf(1) by (rule distinct_map_take)
  have tf: "\<forall>p \<in> set (take n finished). registryId (fst p) \<notin> compiled_ids (start_progress env st0)
           \<and> registryId (fst p) \<notin> failed_ids (start_progress env st0)"
    using bf(2) by (meson in_set_takeD)
  have ts: "\<forall>p \<in> set (take n finished). one_outcome (snd p)"
    using bf(3) by (meson in_set_takeD)
  note o = phase1_loop_placed[OF td tf ts bf(4), of env 0, folded obs_def]
  have pc: "pr_processed (progress obs) = pr_processed (progress st0) + int (length (take n finished))"
    unfolding obs_def by (simp only: phase1_loop_processed snd_conv processed_fields)
  let ?end = "snd (phase1_loop env finished (0, start_progress env st0))"
  note e = phase1_loop_placed[OF bf(1) bf(2) bf(3) bf(4), of env 0]
  have fc: "compiled fin = compiled ?end" and ff: "failed fin = failed ?end"
    unfolding fin_def finished_def st0_def
    by (simp_all only: run_all_is_phase1 run_phase1_maps)
  have ci: "compiled_ids fin = compiled_ids ?end" and fi: "failed_ids fin = failed_ids ?end"
    by (simp_all only: compiled_ids_def failed_ids_def fc ff)
  have f1: "compiled_ids fin \<inter> failed_ids fin = {}"
    using e(1) by (simp only: ci fi)
  have pe: "placed fin p = placed ?end p" for p
    by (simp only: placed_def ci fi)
  have f2: "\<forall>p \<in> set finished. placed fin p"
    using e(2) by (simp only: pe)
  from o pc checkpoint_documents[of env obs] f1 f2 show ?thesis by blast
qed


lemma length_completions [simp]: "length (completions env args) = length args"
  by (simp add: completions_def as_completed_def)

lemma length_phase1_args [simp]: "length (phase1_args w ss) = length ss"
  by (simp add: phase1_args_def process_args_def)

lemma set_completions:
  "set (completions env args) = (\<lambda>arg. (fst arg, process_server_with_model env arg)) ` set args"
  by (simp add: completions_def set_as_completed)

lemma run_phase1_processed:
  "pr_processed (progress (run_phase1 env limit resume workers st))
     = pr_processed (progress (resume_progress resume st))
       + int (length (servers_to_process limit resume (resume_progress resume st)))"
  by (simp add: run_phase1_def Let_def phase1_loop_processed)

lemma raising_batch:
  "servers_to_process None False (resume_progress False (load_servers (MCPCompiler_init raising_disk)))
     = [example_record ''b'']"
  by (simp add: servers_to_process_def resume_progress_def load_servers_def MCPCompiler_init_def
      raising_disk_def load_compiled_def apply_limit_def dict_has_def Let_def)

lemma raising_completions:
  "completions example_env (phase1_args 3 [example_record ''b''])
     = [(example_record ''b'', Raised TypeError)]"
  by (simp add: completions_def phase1_args_def process_args_def as_completed_def
      example_process_b)

text \<open>
  The claim as stated fails: the one record of the registry below is processed, its worker
  raises, and after the full run its id is in neither map.
\<close>

theorem dropped_record_counterexample:
  "completions example_env (phase1_args 3
       (servers_to_process None False
          (resume_progress False (load_servers (MCPCompiler_init raising_disk)))))
     = [(example_record ''b'', Raised TypeError)]
   \<and> pr_processed (progress (run_all example_env None False 3
         (load_servers (MCPCompiler_init raising_disk)))) = 1
   \<and> registryId (example_record ''b'') \<notin> compiled_ids (run_all example_env None False 3
         (load_servers (MCPCompiler_init raising_disk)))
   \<and> registryId (example_record ''b'') \<notin> failed_ids (run_all example_env None False 3
         (load_servers (MCPCompiler_init raising_disk)))"
proof -
  let ?st = "load_servers (MCPCompiler_init raising_disk)"
  let ?fin = "run_all example_env None False 3 ?st"
  have a: "completions example_env (phase1_args 3
       (servers_to_process None False (resume_progress False ?st)))
     = [(example_record ''b'', Raised TypeError)]"
    by (simp only: raising_batch raising_completions)
  have b: "pr_processed (progress ?fin) = 1"
    by (simp only: run_all_is_phase1 run_phase1_processed raising_batch)
       (simp add: resume_progress_def load_servers_def MCPCompiler_init_def new_progress_def)
  have m: "compiled ?fin = compiled (snd (phase1_loop example_env
        [(example_record ''b'', Raised TypeError)]
        (0, start_progress example_env (resume_progress False ?st))))"
    "failed ?fin = failed (snd (phase1_loop example_env
        [(example_record ''b'', Raised TypeError)]
        (0, start_progress example_env (resume_progress False ?st))))"
    by (simp_all only: run_all_is_phase1 run_phase1_maps a)
  have c: "compiled_ids ?fin = {}" "failed_ids ?fin = {}"
    unfolding compiled_ids_def failed_ids_def m
    by (simp_all add: phase1_loop_def phase1_step_def load_compiled_def raising_disk_def
        MCPCompiler_init_def load_servers_def)
  from a b c show ?thesis by simp
qed

lemma example_batch:
  "servers_to_process None False (resume_progress False (load_servers (MCPCompiler_init example_disk)))
     = map example_record [''a'', ''b'', ''c'', ''d'']"
  by (simp add: servers_to_process_def resume_progress_def load_servers_def MCPCompiler_init_def
      example_disk_def load_compiled_def apply_limit_def dict_has_def Let_def)

lemma example_args:
  "phase1_args w (map example_record [''a'', ''b'', ''c'', ''d''])
     = [(example_record ''a'', 0, BACKENDS), (example_record ''b'', 1, BACKENDS),
        (example_record ''c'', 2, BACKENDS), (example_record ''d'', 0, BACKENDS)]"
  by (simp add: phase1_args_def process_args_def BACKENDS_def)

theorem compiled_failed_never_both_witness:
  "distinct (map registryId (registryRefined_json example_disk))
   \<and> (example_record ''d'', process_server_with_model example_env (example_record ''d'', 0, BACKENDS))
       \<in> set (completions example_env (phase1_args 3
             (servers_to_process None False
                (resume_progress False (load_servers (MCPCompiler_init example_disk))))))
   \<and> placed (run_all example_env None False 3 (load_servers (MCPCompiler_init example_disk)))
       (example_record ''d'', process_server_with_model example_env (example_record ''d'', 0, BACKENDS))
   \<and> compiled_ids (run_all example_env None False 3 (load_servers (MCPCompiler_init example_disk)))
       \<inter> failed_ids (run_all example_env None False 3 (load_servers (MCPCompiler_init example_disk)))
       = {}"
proof -
  have d: "distinct (map registryId (registryRefined_json example_disk))"
    by (simp add: example_disk_def)
  have m: "(example_record ''d'', process_server_with_model example_env (example_record ''d'', 0, BACKENDS))
       \<in> set (completions example_env (phase1_args 3
             (servers_to_process None False
                (resume_progress False (load_servers (MCPCompiler_init example_disk))))))"
    by (simp only: example_batch example_args set_completions) simp
  note t = compiled_failed_never_both[OF d, where env=example_env and workers=3
      and limit=None and resume=False and n=2]
  from t m have p: "placed (run_all example_env None False 3 (load_servers (MCPCompiler_init example_disk)))
       (example_record ''d'', process_server_with_model example_env (example_record ''d'', 0, BACKENDS))"
    by blast
  from t have e: "compiled_ids (run_all example_env None False 3 (load_servers (MCPCompiler_init example_disk)))
       \<inter> failed_ids (run_all example_env None False 3 (load_servers (MCPCompiler_init example_disk)))
       = {}"
    by blast
  from d m p e show ?thesis by blast
qed

end
